theory Spec2Isabelle
  imports Complex_Main
begin

section \<open>Python strings\<close>

text \<open>
  Strings are lists of 8-bit characters. The functions below follow Python's \<^verbatim>\<open>str\<close>
  methods on ASCII text: \<^verbatim>\<open>lower\<close> maps \<^verbatim>\<open>A..Z\<close> to \<^verbatim>\<open>a..z\<close> and leaves every other
  character alone, and the whitespace of \<^verbatim>\<open>split()\<close> and \<^verbatim>\<open>strip()\<close> is the ASCII
  whitespace (codes 9 to 13, 28 to 31 and 32).
\<close>

definition whitespace :: "char list" where
  "whitespace = [CHR 0x09, CHR 0x0A, CHR 0x0B, CHR 0x0C, CHR 0x0D,
                 CHR 0x1C, CHR 0x1D, CHR 0x1E, CHR 0x1F, CHR 0x20]"

definition is_space :: "char \<Rightarrow> bool" where
  "is_space c = (c \<in> set whitespace)"

definition lower_table :: "(char \<times> char) list" where
  "lower_table = zip ''ABCDEFGHIJKLMNOPQRSTUVWXYZ'' ''abcdefghijklmnopqrstuvwxyz''"

definition lower_char :: "char \<Rightarrow> char" where
  "lower_char c = (case map_of lower_table c of Some d \<Rightarrow> d | None \<Rightarrow> c)"

definition lower :: "string \<Rightarrow> string" where
  "lower s = map lower_char s"

definition strip :: "string \<Rightarrow> string" where
  "strip s = rev (dropWhile is_space (rev (dropWhile is_space s)))"

text \<open>
  \<^verbatim>\<open>text.split()\<close>: the maximal runs of non-whitespace characters, in order. The
  accumulator \<open>w\<close> holds the word being read.
\<close>

fun split_acc :: "string \<Rightarrow> string \<Rightarrow> string list" where
  "split_acc w [] = (if w = [] then [] else [w])"
| "split_acc w (c # cs) =
     (if is_space c then (if w = [] then split_acc [] cs else w # split_acc [] cs)
      else split_acc (w @ [c]) cs)"

definition split :: "string \<Rightarrow> string list" where
  "split s = split_acc [] s"

text \<open>\<^verbatim>\<open>sep.join(words)\<close>.\<close>

fun join :: "string \<Rightarrow> string list \<Rightarrow> string" where
  "join sep [] = []"
| "join sep [w] = w"
| "join sep (w # v # ws) = w @ sep @ join sep (v # ws)"

text \<open>
  \<^verbatim>\<open>s.startswith(sub)\<close> and \<^verbatim>\<open>s.find(sub)\<close>: the index of the first occurrence of
  \<open>sub\<close> in \<open>s\<close>, or \<open>-1\<close> when there is none.
\<close>

fun startswith :: "string \<Rightarrow> string \<Rightarrow> bool" where
  "startswith s [] = True"
| "startswith [] (c # sub) = False"
| "startswith (d # s) (c # sub) = (d = c \<and> startswith s sub)"

fun find_from :: "nat \<Rightarrow> string \<Rightarrow> string \<Rightarrow> int" where
  "find_from i [] sub = (if sub = [] then int i else - 1)"
| "find_from i (d # s) sub =
     (if startswith (d # s) sub then int i else find_from (Suc i) s sub)"

definition find :: "string \<Rightarrow> string \<Rightarrow> int" where
  "find s sub = find_from 0 s sub"

section \<open>The collaborators\<close>

text \<open>
  The sentence encoder and the cosine similarity are libraries outside the repository.
  Every function below takes them as parameters: \<open>enc\<close> sends a text to its embedding
  (a value of an arbitrary type \<open>'v\<close>) and \<open>cosine_similarity\<close> scores two embeddings with a real
  number. The spell checker's \<^verbatim>\<open>correction(word)\<close> is the parameter \<open>correction\<close>,
  which returns \<open>None\<close> where the library returns \<^verbatim>\<open>None\<close>.
\<close>

subsection \<open>Spelling correction (Logic1\_OnlyCSV.py, maxFromEachColumn.py)\<close>

text \<open>
  \<^verbatim>\<open>spellchecker.correction(word) if spellchecker.correction(word) else word\<close>: the
  correction when it is a non-empty string, the word itself otherwise.
\<close>

definition corrected_word :: "(string \<Rightarrow> string option) \<Rightarrow> string \<Rightarrow> string" where
  "corrected_word correction word =
     (case correction word of
        None \<Rightarrow> word
      | Some w \<Rightarrow> if w = [] then word else w)"

definition correct_spelling :: "(string \<Rightarrow> string option) \<Rightarrow> string \<Rightarrow> string" where
  "correct_spelling correction text =
     (if length (split text) > 1
      then (let corrected_words = map (corrected_word correction) (split text);
                corrected_text = join '' '' corrected_words
            in corrected_text)
      else text)"

subsection \<open>Domain gate\<close>

text \<open>
  The module-level \<^verbatim>\<open>domain_keywords\<close> and \<^verbatim>\<open>domain_embeddings\<close>, as
  Logic1\_OnlyCSV.py and maxFromEachColumn.py build them.
\<close>

definition domain_keywords :: "string list" where
  "domain_keywords = [''heart'', ''cardiac'', ''women'', ''health'', ''cardiology'']"

definition domain_embeddings :: "(string \<Rightarrow> 'v) \<Rightarrow> 'v list" where
  "domain_embeddings enc = map enc domain_keywords"

text \<open>\<^verbatim>\<open>any(score >= threshold for score in relevance_scores)\<close>.\<close>

fun any_ge :: "real \<Rightarrow> real list \<Rightarrow> bool" where
  "any_ge threshold [] = False"
| "any_ge threshold (score # scores) = (if score \<ge> threshold then True else any_ge threshold scores)"

definition is_domain_relevant ::
  "(string \<Rightarrow> 'v) \<Rightarrow> ('v \<Rightarrow> 'v \<Rightarrow> real) \<Rightarrow> string \<Rightarrow> real \<Rightarrow> bool" where
  "is_domain_relevant enc cosine_similarity query threshold =
     (let query_embedding = enc (lower query);
          relevance_scores = map (\<lambda>dom_emb. cosine_similarity query_embedding dom_emb) (domain_embeddings enc)
      in any_ge threshold relevance_scores)"

text \<open>The default of the parameter \<^verbatim>\<open>threshold\<close> of \<^verbatim>\<open>is_domain_relevant\<close>.\<close>

definition domain_threshold :: real where
  "domain_threshold = 0.4"

section \<open>Knowledge base\<close>

text \<open>
  One row of the knowledge base, as the dictionaries appended to \<^verbatim>\<open>database\<close>, and its
  precomputed embeddings, as the dictionaries appended to \<^verbatim>\<open>db_embeddings\<close>. The two
  module-level lists are built row by row from the same table, so entry \<open>index\<close> of
  one belongs to entry \<open>index\<close> of the other: the knowledge base is the list of these
  pairs, in table order.
\<close>

record db_item =
  trigger_word :: string
  synonyms :: "string list"
  keywords_field :: "string list"
  What :: string
  Why :: string
  How :: string
  Symptoms :: string

record 'v item_embeddings =
  trigger_embedding :: 'v
  synonyms_embeddings :: "'v list"
  keywords_embeddings :: "'v list"

type_synonym 'v knowledge_base = "(db_item \<times> 'v item_embeddings) list"

section \<open>Context matcher (chatbot/response\_generation.py)\<close>

subsection \<open>Pass 1: words shared with a trigger\<close>

fun match_generator :: "'v knowledge_base \<Rightarrow> string list \<Rightarrow> db_item list" where
  "match_generator [] query_words = []"
| "match_generator ((item, emb) # rest) query_words =
     (let trigger_words = split (lower (trigger_word item));
          common_words = set trigger_words \<inter> set query_words
      in if common_words \<noteq> {} then item # match_generator rest query_words
         else match_generator rest query_words)"

subsection \<open>Pass 2: embedding scores\<close>

text \<open>
  \<^verbatim>\<open>max(scores)\<close> on a non-empty list (Python raises \<^verbatim>\<open>ValueError\<close> on an empty one;
  every call below is guarded), and \<^verbatim>\<open>max(scores) if scores else 0\<close>.
\<close>

fun max_list :: "real list \<Rightarrow> real" where
  "max_list (s # ss) = fold max ss s"

definition max_or_0 :: "real list \<Rightarrow> real" where
  "max_or_0 scores = (if scores \<noteq> [] then max_list scores else 0)"

definition trigger_score :: "('v \<Rightarrow> 'v \<Rightarrow> real) \<Rightarrow> 'v \<Rightarrow> 'v item_embeddings \<Rightarrow> real" where
  "trigger_score cosine_similarity query_embedding emb =
     cosine_similarity query_embedding (trigger_embedding emb)"

definition max_synonym_score :: "('v \<Rightarrow> 'v \<Rightarrow> real) \<Rightarrow> 'v \<Rightarrow> 'v item_embeddings \<Rightarrow> real" where
  "max_synonym_score cosine_similarity query_embedding emb =
     (let synonym_scores = map (cosine_similarity query_embedding) (synonyms_embeddings emb)
      in max_or_0 synonym_scores)"

definition max_keyword_score :: "('v \<Rightarrow> 'v \<Rightarrow> real) \<Rightarrow> 'v \<Rightarrow> 'v item_embeddings \<Rightarrow> real" where
  "max_keyword_score cosine_similarity query_embedding emb =
     (let keyword_scores = map (cosine_similarity query_embedding) (keywords_embeddings emb)
      in max_or_0 keyword_scores)"

definition avg_score :: "('v \<Rightarrow> 'v \<Rightarrow> real) \<Rightarrow> 'v \<Rightarrow> 'v item_embeddings \<Rightarrow> real" where
  "avg_score cosine_similarity query_embedding emb =
     (let max_scores_sum = trigger_score cosine_similarity query_embedding emb
            + max_synonym_score cosine_similarity query_embedding emb
            + max_keyword_score cosine_similarity query_embedding emb
      in max_scores_sum / 3)"

text \<open>The test of the first \<^verbatim>\<open>if\<close> of the loop, and the value it stores.\<close>

definition is_strong :: "('v \<Rightarrow> 'v \<Rightarrow> real) \<Rightarrow> 'v \<Rightarrow> 'v item_embeddings \<Rightarrow> bool" where
  "is_strong cosine_similarity query_embedding emb =
     (trigger_score cosine_similarity query_embedding emb \<ge> 0.65
      \<or> max_synonym_score cosine_similarity query_embedding emb \<ge> 0.65
      \<or> max_keyword_score cosine_similarity query_embedding emb \<ge> 0.65)"

definition max_score :: "('v \<Rightarrow> 'v \<Rightarrow> real) \<Rightarrow> 'v \<Rightarrow> 'v item_embeddings \<Rightarrow> real" where
  "max_score cosine_similarity query_embedding emb =
     max (trigger_score cosine_similarity query_embedding emb)
       (max (max_synonym_score cosine_similarity query_embedding emb)
            (max_keyword_score cosine_similarity query_embedding emb))"

text \<open>The test of the second \<^verbatim>\<open>if\<close>, apart from the comparison with the running best.\<close>

definition is_weak :: "('v \<Rightarrow> 'v \<Rightarrow> real) \<Rightarrow> 'v \<Rightarrow> 'v item_embeddings \<Rightarrow> bool" where
  "is_weak cosine_similarity query_embedding emb =
     (trigger_score cosine_similarity query_embedding emb < 0.65
      \<and> max_synonym_score cosine_similarity query_embedding emb < 0.65
      \<and> max_keyword_score cosine_similarity query_embedding emb < 0.65)"

text \<open>The variables the loop over \<^verbatim>\<open>db_embeddings\<close> updates.\<close>

record scan_state =
  best_match_score :: real
  best_max_match_score :: real
  best_match_response :: "db_item list"
  best_max_match_response :: "db_item list"

definition init_state :: scan_state where
  "init_state = \<lparr>best_match_score = 0, best_max_match_score = 0,
                  best_match_response = [], best_max_match_response = []\<rparr>"

definition scan_item ::
  "('v \<Rightarrow> 'v \<Rightarrow> real) \<Rightarrow> 'v \<Rightarrow> scan_state \<Rightarrow> db_item \<times> 'v item_embeddings \<Rightarrow> scan_state" where
  "scan_item cosine_similarity query_embedding st entry =
     (let item = fst entry; emb = snd entry;
          st1 = (if is_strong cosine_similarity query_embedding emb
                 then st\<lparr>best_max_match_score := max_score cosine_similarity query_embedding emb,
                         best_max_match_response := best_max_match_response st @ [item]\<rparr>
                 else st)
      in if avg_score cosine_similarity query_embedding emb > best_match_score st1
            \<and> is_weak cosine_similarity query_embedding emb
         then st1\<lparr>best_match_score := avg_score cosine_similarity query_embedding emb,
                  best_match_response := best_match_response st1 @ [item]\<rparr>
         else st1)"

definition scan :: "('v \<Rightarrow> 'v \<Rightarrow> real) \<Rightarrow> 'v \<Rightarrow> 'v knowledge_base \<Rightarrow> scan_state" where
  "scan cosine_similarity query_embedding kb =
     foldl (scan_item cosine_similarity query_embedding) init_state kb"

text \<open>
  \<^verbatim>\<open>find_best_context(query, threshold)\<close>: \<open>None\<close> is Python's \<^verbatim>\<open>None\<close>.
\<close>

definition query_words :: "string \<Rightarrow> string list" where
  "query_words query = split (lower (strip query))"

definition find_best_context ::
  "(string \<Rightarrow> 'v) \<Rightarrow> ('v \<Rightarrow> 'v \<Rightarrow> real) \<Rightarrow> 'v knowledge_base \<Rightarrow> string \<Rightarrow> real
     \<Rightarrow> db_item list option" where
  "find_best_context enc cosine_similarity kb query threshold =
     (let query_embedding = enc (lower query);
          matches = match_generator kb (query_words query)
      in if matches \<noteq> [] then Some matches
         else
           (let st = scan cosine_similarity query_embedding kb
            in if best_match_score st \<ge> threshold \<and> best_max_match_score st < best_match_score st
               then Some (best_match_response st)
               else if best_max_match_score st > best_match_score st
               then Some (best_max_match_response st)
               else None))"

section \<open>Intent router (chatbot/response\_generation.py)\<close>

text \<open>The dictionary \<^verbatim>\<open>intent_words\<close>, in its insertion order.\<close>

definition intent_words :: "(string \<times> string list) list" where
  "intent_words =
     [(''What'',
        [''What'', ''Define'', ''Identify'', ''Describe'', ''Clarify'', ''Specify'', ''Detail'',
         ''Outline'', ''State'', ''Explain'', ''Determine'', ''Depict'', ''Summarize'',
         ''Designate'', ''Distinguish'']),
      (''Symptoms'',
        [''Symptoms'', ''Signs'', ''Indications'', ''Manifestations'', ''Warning'', ''Clues'',
         ''Evidence'', ''Redflags'', ''Markers'', ''Presentations'', ''Outcomes'', ''Patterns'',
         ''Phenomena'', ''Traits'', ''Occurrences'']),
      (''Why'',
        [''Why'', ''Causes'', ''Reason'', ''Purpose'', ''Explain'', ''Justification'', ''Origin'',
         ''Motive'', ''Trigger'', ''Rationale'', ''Grounds'', ''Basis'', ''Excuse'', ''Source'',
         ''Factor'']),
      (''How'',
        [''How'', ''Method'', ''Means'', ''Procedure'', ''Steps'', ''Technique'', ''Process'',
         ''Way'', ''Approach'', ''Strategy'', ''System'', ''Manner'', ''Framework'', ''Form'',
         ''Mode'', ''Prevention'', ''Avoidance'', ''Safeguard'', ''Protection'', ''Mitigation'',
         ''Reduction'', ''Intervention'', ''Defense'', ''Deterrence'', ''Shielding'', ''Do''])]"

text \<open>
  The module-level \<^verbatim>\<open>column_names\<close> and \<^verbatim>\<open>column_embeddings\<close>, as
  maxFromEachColumn.py builds them.
\<close>

definition column_names :: "string list" where
  "column_names = [''What'', ''Why'', ''How'', ''Symptoms'']"

definition column_embeddings :: "(string \<Rightarrow> 'v) \<Rightarrow> 'v list" where
  "column_embeddings enc = map enc column_names"

text \<open>
  What \<^verbatim>\<open>match_columns\<close> receives as \<^verbatim>\<open>best_match_response\<close> (here \<open>matched_row\<close>): one row of the
  knowledge base (a dictionary), or a list of rows, which \<^verbatim>\<open>find_best_context\<close>
  returns. The errors are Python's exceptions.
\<close>

datatype py_error = AttributeError | UnboundLocalError

datatype context_response = Row db_item | Rows "db_item list"

text \<open>
  \<^verbatim>\<open>item.get(column)\<close> on a row: the cell of an answer column. The router only asks
  for the keys of \<^verbatim>\<open>intent_words\<close> and \<^verbatim>\<open>column_names\<close>; any other key gives
  \<open>None\<close> here.
\<close>

definition dict_get :: "db_item \<Rightarrow> string \<Rightarrow> string option" where
  "dict_get item column =
     (if column = ''What'' then Some (What item)
      else if column = ''Why'' then Some (Why item)
      else if column = ''How'' then Some (How item)
      else if column = ''Symptoms'' then Some (Symptoms item)
      else None)"

text \<open>\<^verbatim>\<open>best_match_response.get(column)\<close>: a list has no attribute \<^verbatim>\<open>get\<close>.\<close>

fun get :: "context_response \<Rightarrow> string \<Rightarrow> py_error + string option" where
  "get (Row item) column = Inr (dict_get item column)"
| "get (Rows items) column = Inl AttributeError"

text \<open>Truth value of a cell: \<^verbatim>\<open>None\<close> and the empty string are false.\<close>

definition truthy :: "string option \<Rightarrow> bool" where
  "truthy v = (case v of None \<Rightarrow> False | Some s \<Rightarrow> s \<noteq> [])"

text \<open>
  The inner loop over the keywords of one column. It returns the pair appended to
  \<^verbatim>\<open>matching_columns\<close> before the \<^verbatim>\<open>break\<close>, or \<open>None\<close> when the loop ends without
  appending. The cell is read only when the keyword occurs (\<^verbatim>\<open>and\<close> short-circuits).
\<close>

fun scan_keywords ::
  "string \<Rightarrow> context_response \<Rightarrow> string \<Rightarrow> string list \<Rightarrow> py_error + (int \<times> string) option" where
  "scan_keywords query_lower matched_row column [] = Inr None"
| "scan_keywords query_lower matched_row column (keyword # rest) =
     (let keyword_lower = lower keyword;
          position = find query_lower keyword_lower
      in if position \<noteq> - 1
         then (case get matched_row column of
                 Inl e \<Rightarrow> Inl e
               | Inr v \<Rightarrow>
                   if truthy v then Inr (Some (position, the v))
                   else scan_keywords query_lower matched_row column rest)
         else scan_keywords query_lower matched_row column rest)"

text \<open>The outer loop, carrying \<^verbatim>\<open>matching_columns\<close> and \<^verbatim>\<open>match_found\<close>.\<close>

fun scan_intents ::
  "string \<Rightarrow> context_response \<Rightarrow> (string \<times> string list) list \<Rightarrow> (int \<times> string) list \<times> bool
     \<Rightarrow> py_error + ((int \<times> string) list \<times> bool)" where
  "scan_intents query_lower matched_row [] acc = Inr acc"
| "scan_intents query_lower matched_row ((column, kws) # rest) (matching_columns, match_found) =
     (case scan_keywords query_lower matched_row column kws of
        Inl e \<Rightarrow> Inl e
      | Inr None \<Rightarrow>
          scan_intents query_lower matched_row rest (matching_columns, match_found)
      | Inr (Some m) \<Rightarrow>
          scan_intents query_lower matched_row rest (matching_columns @ [m], True))"

text \<open>
  The default after the loops: the response of the first column of \<^verbatim>\<open>intent_words\<close>,
  at position 0, with \<^verbatim>\<open>best_match_response_flag = 1\<close>.
\<close>

definition add_default ::
  "context_response \<Rightarrow> (int \<times> string) list \<times> bool \<Rightarrow> py_error + ((int \<times> string) list \<times> nat)" where
  "add_default matched_row acc =
     (let matching_columns = fst acc; match_found = snd acc
      in if \<not> match_found \<and> intent_words \<noteq> []
         then (let first_column = fst (hd intent_words)
               in case get matched_row first_column of
                    Inl e \<Rightarrow> Inl e
                  | Inr v \<Rightarrow>
                      if truthy v then Inr (matching_columns @ [(0, the v)], 1)
                      else Inr (matching_columns, 0))
         else Inr (matching_columns, 0))"

text \<open>\<^verbatim>\<open>column_scores.argmax()\<close>: the first index of a greatest score.\<close>

fun argmax_from :: "nat \<Rightarrow> nat \<Rightarrow> real \<Rightarrow> real list \<Rightarrow> nat" where
  "argmax_from i best_i best [] = best_i"
| "argmax_from i best_i best (x # xs) =
     (if x > best then argmax_from (Suc i) i x xs else argmax_from (Suc i) best_i best xs)"

definition argmax :: "real list \<Rightarrow> nat" where
  "argmax xs = (case xs of [] \<Rightarrow> 0 | x # ys \<Rightarrow> argmax_from 1 0 x ys)"

text \<open>
  \<^verbatim>\<open>match_columns(query, best_match_response)\<close>. The imported helper
  \<^verbatim>\<open>correct_spelling\<close> is the parameter \<open>spell\<close>. The result is the pair of the
  response and \<^verbatim>\<open>best_match_response_flag\<close>.
\<close>

definition match_columns ::
  "(string \<Rightarrow> string) \<Rightarrow> (string \<Rightarrow> 'v) \<Rightarrow> ('v \<Rightarrow> 'v \<Rightarrow> real) \<Rightarrow> string \<Rightarrow> context_response
     \<Rightarrow> py_error + (string \<times> nat)" where
  "match_columns spell enc cosine_similarity query matched_row =
     (let query_lower = spell (lower query)
      in case scan_intents query_lower matched_row intent_words ([], False) of
           Inl e \<Rightarrow> Inl e
         | Inr acc \<Rightarrow>
             (case add_default matched_row acc of
                Inl e \<Rightarrow> Inl e
              | Inr (matching_columns, best_match_response_flag) \<Rightarrow>
                  (let responses = map snd (sort_key fst matching_columns)
                   in if responses \<noteq> []
                      then Inr (join '' '' responses, best_match_response_flag)
                      else
                        (let query_embedding = enc query_lower;
                             column_scores =
                               map (cosine_similarity query_embedding) (column_embeddings enc);
                             best_column_index = argmax column_scores;
                             best_column_name = column_names ! best_column_index
                         in case get matched_row best_column_name of
                              Inl e \<Rightarrow> Inl e
                            | Inr v \<Rightarrow>
                                Inr (case v of None \<Rightarrow> [] | Some r \<Rightarrow> r,
                                     best_match_response_flag)))))"

section \<open>Orchestrator (chatbot/response\_generation.py)\<close>

definition disclaimer :: string where
  "disclaimer = CHR 0x0A # '' For personalized advice or concerns about your health, Please consult our healthcare professional. We can provide you with the best guidance based on your specific needs.''"

definition separator :: string where
  "separator = [CHR '' '', CHR 0x0A, CHR 0x0A, CHR '' '']"

definition generate_response_with_placeholder :: "string \<Rightarrow> string" where
  "generate_response_with_placeholder prompt =
     ''This is a placeholder response generated for your question.''"

definition fallback_response :: string where
  "fallback_response = ''I'' @ [CHR 0x27] @ ''m sorry, I can only answer questions related to women'' @ [CHR 0x27] @ ''s heart health. Can you please clarify your question?''"

definition prompt_of :: "string \<Rightarrow> string" where
  "prompt_of corrected_input =
     ''User asked: '' @ corrected_input @ ''. Please provide a helpful response related to women'' @ [CHR 0x27] @ ''s heart health.''"

text \<open>
  The loop over \<^verbatim>\<open>context_responses\<close>, carrying \<^verbatim>\<open>combined_responses\<close> and the
  variable \<^verbatim>\<open>best_match_response_flag\<close>, which is unbound (\<open>None\<close>) before the first
  iteration and is overwritten by every iteration.
\<close>

fun route_all ::
  "(string \<Rightarrow> string) \<Rightarrow> (string \<Rightarrow> 'v) \<Rightarrow> ('v \<Rightarrow> 'v \<Rightarrow> real) \<Rightarrow> string \<Rightarrow> db_item list
     \<Rightarrow> string list \<times> nat option \<Rightarrow> py_error + (string list \<times> nat option)" where
  "route_all spell enc cosine_similarity user_input [] acc = Inr acc"
| "route_all spell enc cosine_similarity user_input (context_response # rest) (combined_responses, flag) =
     (case match_columns spell enc cosine_similarity user_input (Row context_response) of
        Inl e \<Rightarrow> Inl e
      | Inr (column_response, best_match_response_flag) \<Rightarrow>
          route_all spell enc cosine_similarity user_input rest
            (if column_response \<noteq> [] then combined_responses @ [column_response]
             else combined_responses,
             Some best_match_response_flag))"

text \<open>The steps of \<^verbatim>\<open>get_response\<close> after a failed direct match and a failed retry.\<close>

definition gate_and_fallback ::
  "(string \<Rightarrow> 'v) \<Rightarrow> ('v \<Rightarrow> 'v \<Rightarrow> real) \<Rightarrow> string \<Rightarrow> string" where
  "gate_and_fallback enc cosine_similarity corrected_input =
     (if is_domain_relevant enc cosine_similarity corrected_input domain_threshold
      then generate_response_with_placeholder (prompt_of corrected_input)
      else fallback_response)"

text \<open>
  \<^verbatim>\<open>get_response(user_input, threshold)\<close>. A result of \<^verbatim>\<open>find_best_context\<close> is
  true when it is a non-empty list.
\<close>

definition get_response ::
  "(string \<Rightarrow> string) \<Rightarrow> (string \<Rightarrow> 'v) \<Rightarrow> ('v \<Rightarrow> 'v \<Rightarrow> real) \<Rightarrow> 'v knowledge_base \<Rightarrow> string \<Rightarrow> real
     \<Rightarrow> py_error + string" where
  "get_response spell enc cosine_similarity kb user_input threshold =
     (case find_best_context enc cosine_similarity kb user_input threshold of
        Some (c # cs) \<Rightarrow>
          (case route_all spell enc cosine_similarity user_input (c # cs) ([], None) of
             Inl e \<Rightarrow> Inl e
           | Inr (combined_responses, flag) \<Rightarrow>
               (let final_response = join separator combined_responses
                in case flag of
                     None \<Rightarrow> Inl UnboundLocalError
                   | Some best_match_response_flag \<Rightarrow>
                       Inr (if best_match_response_flag = 1 then final_response @ disclaimer
                            else final_response)))
      | _ \<Rightarrow>
          (let corrected_input = spell user_input;
               retry =
                 (if corrected_input \<noteq> user_input
                  then (case find_best_context enc cosine_similarity kb corrected_input threshold of
                          Some (c # cs) \<Rightarrow>
                            Some (case match_columns spell enc cosine_similarity corrected_input
                                         (Rows (c # cs)) of
                                    Inl e \<Rightarrow> Inl e
                                  | Inr (column_response, best_match_response_flag) \<Rightarrow>
                                      Inr (if best_match_response_flag = 1
                                           then column_response @ disclaimer
                                           else column_response))
                        | _ \<Rightarrow> None)
                  else None)
           in case retry of
                Some result \<Rightarrow> result
              | None \<Rightarrow> Inr (gate_and_fallback enc cosine_similarity corrected_input)))"

section \<open>The earlier matcher (utils/analyse\_dataframe.py)\<close>

text \<open>
  The same scan without Pass 1, keeping one row per bucket instead of a list: each
  assignment replaces the row stored before.
\<close>

record df_state =
  df_best_match_score :: real
  df_best_max_match_score :: real
  df_best_match_response :: "db_item option"
  df_best_max_match_response :: "db_item option"

definition df_init_state :: df_state where
  "df_init_state = \<lparr>df_best_match_score = 0, df_best_max_match_score = 0,
                     df_best_match_response = None, df_best_max_match_response = None\<rparr>"

definition df_scan_item ::
  "('v \<Rightarrow> 'v \<Rightarrow> real) \<Rightarrow> 'v \<Rightarrow> df_state \<Rightarrow> db_item \<times> 'v item_embeddings \<Rightarrow> df_state" where
  "df_scan_item cosine_similarity query_embedding st entry =
     (let item = fst entry; emb = snd entry;
          st1 = (if is_strong cosine_similarity query_embedding emb
                 then st\<lparr>df_best_max_match_score := max_score cosine_similarity query_embedding emb,
                         df_best_max_match_response := Some item\<rparr>
                 else st)
      in if avg_score cosine_similarity query_embedding emb > df_best_match_score st1
            \<and> is_weak cosine_similarity query_embedding emb
         then st1\<lparr>df_best_match_score := avg_score cosine_similarity query_embedding emb,
                  df_best_match_response := Some item\<rparr>
         else st1)"

definition df_scan :: "('v \<Rightarrow> 'v \<Rightarrow> real) \<Rightarrow> 'v \<Rightarrow> 'v knowledge_base \<Rightarrow> df_state" where
  "df_scan cosine_similarity query_embedding kb =
     foldl (df_scan_item cosine_similarity query_embedding) df_init_state kb"

definition df_find_best_context ::
  "(string \<Rightarrow> 'v) \<Rightarrow> ('v \<Rightarrow> 'v \<Rightarrow> real) \<Rightarrow> 'v knowledge_base \<Rightarrow> string \<Rightarrow> real
     \<Rightarrow> db_item option" where
  "df_find_best_context enc cosine_similarity kb query threshold =
     (let query_embedding = enc (lower query);
          st = df_scan cosine_similarity query_embedding kb
      in if df_best_match_score st \<ge> threshold
            \<and> df_best_max_match_score st < df_best_match_score st
         then df_best_match_response st
         else if df_best_max_match_score st > df_best_match_score st
         then df_best_max_match_response st
         else None)"

section \<open>The single-response variant (Logic1\_OnlyCSV.py)\<close>

text \<open>A row of this variant's \<^verbatim>\<open>database\<close>: one \<^verbatim>\<open>response\<close> column.\<close>

record csv_item =
  csv_trigger_word :: string
  csv_synonyms :: "string list"
  csv_keywords :: "string list"
  response :: string

type_synonym 'v csv_base = "(csv_item \<times> 'v item_embeddings) list"

text \<open>
  The three maxima of one iteration. The list \<^verbatim>\<open>trigger_scores\<close> is computed, as in
  the source, from \<^verbatim>\<open>item_embeddings['synonyms_embeddings']\<close>, and its maximum is
  guarded by \<^verbatim>\<open>synonyms_scores\<close>.
\<close>

definition csv_max_trigger_score :: "('v \<Rightarrow> 'v \<Rightarrow> real) \<Rightarrow> 'v \<Rightarrow> 'v item_embeddings \<Rightarrow> real" where
  "csv_max_trigger_score cosine_similarity query_embedding emb =
     (let trigger_scores = map (cosine_similarity query_embedding) (synonyms_embeddings emb);
          synonyms_scores = map (cosine_similarity query_embedding) (synonyms_embeddings emb)
      in if synonyms_scores \<noteq> [] then max_list trigger_scores else 0)"

definition csv_max_score :: "('v \<Rightarrow> 'v \<Rightarrow> real) \<Rightarrow> 'v \<Rightarrow> 'v item_embeddings \<Rightarrow> real" where
  "csv_max_score cosine_similarity query_embedding emb =
     max (csv_max_trigger_score cosine_similarity query_embedding emb)
       (max (max_synonym_score cosine_similarity query_embedding emb)
            (max_keyword_score cosine_similarity query_embedding emb))"

text \<open>
  One iteration on the pair of \<^verbatim>\<open>best_match_score\<close> and \<^verbatim>\<open>best_match_response\<close>.
  The \<^verbatim>\<open>continue\<close> of the \<^verbatim>\<open>else\<close> branch is the first \<open>if\<close>.
\<close>

definition csv_scan_item ::
  "('v \<Rightarrow> 'v \<Rightarrow> real) \<Rightarrow> 'v \<Rightarrow> real \<Rightarrow> real \<times> string option \<Rightarrow> csv_item \<times> 'v item_embeddings
     \<Rightarrow> real \<times> string option" where
  "csv_scan_item cosine_similarity query_embedding threshold st entry =
     (let item = fst entry; emb = snd entry;
          max_trigger_score = csv_max_trigger_score cosine_similarity query_embedding emb;
          max_synonym_sc = max_synonym_score cosine_similarity query_embedding emb;
          max_keyword_sc = max_keyword_score cosine_similarity query_embedding emb;
          max_sc = csv_max_score cosine_similarity query_embedding emb
      in if max_sc \<noteq> max_trigger_score \<and> max_sc \<noteq> max_synonym_sc \<and> max_sc \<noteq> max_keyword_sc
         then st
         else if max_sc > fst st \<and> max_sc \<ge> threshold
         then (max_sc, Some (response item))
         else st)"

definition csv_find_best_context ::
  "(string \<Rightarrow> 'v) \<Rightarrow> ('v \<Rightarrow> 'v \<Rightarrow> real) \<Rightarrow> 'v csv_base \<Rightarrow> string \<Rightarrow> real \<Rightarrow> string option" where
  "csv_find_best_context enc cosine_similarity kb query threshold =
     (let query_embedding = enc (lower query)
      in snd (foldl (csv_scan_item cosine_similarity query_embedding threshold) (0, None) kb))"

text \<open>
  \<^verbatim>\<open>get_response(user_input, threshold)\<close> of this variant, with the spell checker's
  \<^verbatim>\<open>correction\<close> as a parameter. A response is true when it is a non-empty string.
\<close>

definition csv_get_response ::
  "(string \<Rightarrow> string option) \<Rightarrow> (string \<Rightarrow> 'v) \<Rightarrow> ('v \<Rightarrow> 'v \<Rightarrow> real) \<Rightarrow> 'v csv_base \<Rightarrow> string \<Rightarrow> real
     \<Rightarrow> string" where
  "csv_get_response correction enc cosine_similarity kb user_input threshold =
     (let context_response = csv_find_best_context enc cosine_similarity kb user_input threshold
      in if truthy context_response then the context_response
         else
           (let corrected_input = correct_spelling correction user_input;
                retry =
                  (if corrected_input \<noteq> user_input
                   then csv_find_best_context enc cosine_similarity kb corrected_input threshold
                   else None)
            in if truthy retry then the retry
               else gate_and_fallback enc cosine_similarity corrected_input))"

section \<open>The conversational variant (Different Concept Implementations/July18/app3Japanese.py)\<close>

text \<open>
  The fixed texts of this variant are Japanese; they are given as their UTF-8 bytes.
\<close>

definition greetings :: "string list" where
  "greetings =
    [
     [CHR 0xE3, CHR 0x81, CHR 0x93, CHR 0xE3, CHR 0x82, CHR 0x93, CHR 0xE3, CHR 0x81,
      CHR 0xAB, CHR 0xE3, CHR 0x81, CHR 0xA1, CHR 0xE3, CHR 0x81, CHR 0xAF],
     [CHR 0xE3, CHR 0x81, CHR 0x93, CHR 0xE3, CHR 0x82, CHR 0x93, CHR 0xE3, CHR 0x81,
      CHR 0xB0, CHR 0xE3, CHR 0x82, CHR 0x93, CHR 0xE3, CHR 0x81, CHR 0xAF],
     [CHR 0xE3, CHR 0x81, CHR 0x8A, CHR 0xE3, CHR 0x81, CHR 0xAF, CHR 0xE3, CHR 0x82,
      CHR 0x88, CHR 0xE3, CHR 0x81, CHR 0x86]]"

definition greeting_reply :: string where
  "greeting_reply =
     [CHR 0xE3, CHR 0x81, CHR 0x93, CHR 0xE3, CHR 0x82, CHR 0x93, CHR 0xE3, CHR 0x81,
      CHR 0xAB, CHR 0xE3, CHR 0x81, CHR 0xA1, CHR 0xE3, CHR 0x81, CHR 0xAF, CHR 0xEF,
      CHR 0xBC, CHR 0x81, CHR 0xE5, CHR 0xBF, CHR 0x83, CHR 0xE8, CHR 0x87, CHR 0x93,
      CHR 0xE3, CHR 0x81, CHR 0xAE, CHR 0xE5, CHR 0x81, CHR 0xA5, CHR 0xE5, CHR 0xBA,
      CHR 0xB7, CHR 0xE3, CHR 0x81, CHR 0xAB, CHR 0xE3, CHR 0x81, CHR 0xA4, CHR 0xE3,
      CHR 0x81, CHR 0x84, CHR 0xE3, CHR 0x81, CHR 0xA6, CHR 0xE3, CHR 0x81, CHR 0xA9,
      CHR 0xE3, CHR 0x82, CHR 0x93, CHR 0xE3, CHR 0x81, CHR 0xAA, CHR 0xE8, CHR 0xB3,
      CHR 0xAA, CHR 0xE5, CHR 0x95, CHR 0x8F, CHR 0xE3, CHR 0x81, CHR 0x8C, CHR 0xE3,
      CHR 0x81, CHR 0x82, CHR 0xE3, CHR 0x82, CHR 0x8A, CHR 0xE3, CHR 0x81, CHR 0xBE,
      CHR 0xE3, CHR 0x81, CHR 0x99, CHR 0xE3, CHR 0x81, CHR 0x8B, CHR 0xEF, CHR 0xBC,
      CHR 0x9F]"

definition jp_fallback_response :: string where
  "jp_fallback_response =
     [CHR 0xE7, CHR 0x94, CHR 0xB3, CHR 0xE3, CHR 0x81, CHR 0x97, CHR 0xE8, CHR 0xA8,
      CHR 0xB3, CHR 0xE3, CHR 0x81, CHR 0x82, CHR 0xE3, CHR 0x82, CHR 0x8A, CHR 0xE3,
      CHR 0x81, CHR 0xBE, CHR 0xE3, CHR 0x81, CHR 0x9B, CHR 0xE3, CHR 0x82, CHR 0x93,
      CHR 0xE3, CHR 0x81, CHR 0x8C, CHR 0xE3, CHR 0x80, CHR 0x81, CHR 0xE3, CHR 0x81,
      CHR 0x9D, CHR 0xE3, CHR 0x81, CHR 0xAE, CHR 0xE8, CHR 0xB3, CHR 0xAA, CHR 0xE5,
      CHR 0x95, CHR 0x8F, CHR 0xE3, CHR 0x81, CHR 0xAB, CHR 0xE3, CHR 0x81, CHR 0xAF,
      CHR 0xE3, CHR 0x81, CHR 0x8A, CHR 0xE7, CHR 0xAD, CHR 0x94, CHR 0xE3, CHR 0x81,
      CHR 0x88, CHR 0xE3, CHR 0x81, CHR 0xA7, CHR 0xE3, CHR 0x81, CHR 0x8D, CHR 0xE3,
      CHR 0x81, CHR 0xBE, CHR 0xE3, CHR 0x81, CHR 0x9B, CHR 0xE3, CHR 0x82, CHR 0x93,
      CHR 0xE3, CHR 0x80, CHR 0x82, CHR 0xE5, CHR 0xBF, CHR 0x83, CHR 0xE8, CHR 0x87,
      CHR 0x93, CHR 0xE3, CHR 0x81, CHR 0xAE, CHR 0xE5, CHR 0x81, CHR 0xA5, CHR 0xE5,
      CHR 0xBA, CHR 0xB7, CHR 0xE3, CHR 0x81, CHR 0xAB, CHR 0xE9, CHR 0x96, CHR 0xA2,
      CHR 0xE3, CHR 0x81, CHR 0x99, CHR 0xE3, CHR 0x82, CHR 0x8B, CHR 0xE8, CHR 0xB3,
      CHR 0xAA, CHR 0xE5, CHR 0x95, CHR 0x8F, CHR 0xE3, CHR 0x82, CHR 0x92, CHR 0xE3,
      CHR 0x81, CHR 0x8A, CHR 0xE9, CHR 0xA1, CHR 0x98, CHR 0xE3, CHR 0x81, CHR 0x84,
      CHR 0xE3, CHR 0x81, CHR 0x97, CHR 0xE3, CHR 0x81, CHR 0xBE, CHR 0xE3, CHR 0x81,
      CHR 0x99, CHR 0xE3, CHR 0x80, CHR 0x82]"

record turn =
  turn_user_input :: string
  turn_bot_response :: string

text \<open>The session value \<^verbatim>\<open>{"context": [], "history": []}\<close>.\<close>

record context_history =
  context_infos :: "string list"
  history :: "turn list"

definition jp_max_score :: "('v \<Rightarrow> 'v \<Rightarrow> real) \<Rightarrow> 'v \<Rightarrow> 'v item_embeddings \<Rightarrow> real" where
  "jp_max_score cosine_similarity query_embedding emb =
     max (trigger_score cosine_similarity query_embedding emb)
       (max (max_synonym_score cosine_similarity query_embedding emb)
            (max_keyword_score cosine_similarity query_embedding emb))"

definition jp_scan_item ::
  "('v \<Rightarrow> 'v \<Rightarrow> real) \<Rightarrow> 'v \<Rightarrow> real \<Rightarrow> real \<times> string option \<Rightarrow> csv_item \<times> 'v item_embeddings
     \<Rightarrow> real \<times> string option" where
  "jp_scan_item cosine_similarity query_embedding threshold st entry =
     (let item = fst entry; emb = snd entry;
          max_sc = jp_max_score cosine_similarity query_embedding emb
      in if max_sc > fst st \<and> max_sc \<ge> threshold
         then (max_sc, Some (response item))
         else st)"

definition jp_find_best_context ::
  "(string \<Rightarrow> 'v) \<Rightarrow> ('v \<Rightarrow> 'v \<Rightarrow> real) \<Rightarrow> 'v csv_base \<Rightarrow> string \<Rightarrow> real \<Rightarrow> string option" where
  "jp_find_best_context enc cosine_similarity kb query threshold =
     (let query_embedding = enc (lower query)
      in snd (foldl (jp_scan_item cosine_similarity query_embedding threshold) (0, None) kb))"

text \<open>\<^verbatim>\<open>xs[-n:]\<close>: the last \<open>n\<close> elements, or all of them when there are fewer.\<close>

definition last_n :: "nat \<Rightarrow> 'a list \<Rightarrow> 'a list" where
  "last_n n xs = drop (length xs - n) xs"

definition follow_up_keywords :: "string list" where
  "follow_up_keywords = [''what about'', ''and'', ''also'', ''more'', ''else'', ''further'']"

definition format_turn :: "turn \<Rightarrow> string" where
  "format_turn h = ''User: '' @ turn_user_input h @ '' Bot: '' @ turn_bot_response h"

definition get_relevant_context :: "string \<Rightarrow> context_history \<Rightarrow> string" where
  "get_relevant_context user_input ch =
     (if list_ex (\<lambda>keyword. find (lower user_input) keyword \<noteq> - 1) follow_up_keywords
         \<and> length (history ch) > 1
      then join '' '' (map format_turn (last_n 2 (history ch)))
      else join '' '' (map format_turn (last_n 1 (history ch))))"

definition jp_prompt :: "string \<Rightarrow> string \<Rightarrow> string \<Rightarrow> string" where
  "jp_prompt user_input relevant_context context_response =
     ''User asked: '' @ user_input @ [CHR 0x0A] @ ''Context: '' @ relevant_context @ [CHR 0x0A]
     @ ''Matched response: '' @ context_response @ [CHR 0x0A]
     @ ''Please enhance and provide a concise, friendly, and helpful response within 150 words. ''
     @ ''Also avoid any AI Disclaimers in the message so that it does not sound robotic.''"

text \<open>
  \<^verbatim>\<open>get_response(user_input, context_history, threshold)\<close>. The parameter \<open>gemini\<close>
  is \<^verbatim>\<open>generate_response_with_gemini\<close>, which catches the exceptions of the
  generative model and always returns a text.
\<close>

definition jp_get_response ::
  "(string \<Rightarrow> string) \<Rightarrow> (string \<Rightarrow> 'v) \<Rightarrow> ('v \<Rightarrow> 'v \<Rightarrow> real) \<Rightarrow> 'v csv_base \<Rightarrow> string
     \<Rightarrow> context_history \<Rightarrow> real \<Rightarrow> string \<times> context_history" where
  "jp_get_response gemini enc cosine_similarity kb user_input0 ch threshold =
     (let user_input = lower user_input0
      in if list_ex (\<lambda>greeting. user_input = greeting) greetings
         then (greeting_reply, ch)
         else
           (let context_response = jp_find_best_context enc cosine_similarity kb user_input threshold
            in if truthy context_response
               then
                 (let ch1 = ch\<lparr>context_infos := context_infos ch @ [the context_response]\<rparr>;
                      ch2 = ch1\<lparr>history := history ch1
                               @ [\<lparr>turn_user_input = user_input, turn_bot_response = []\<rparr>]\<rparr>;
                      relevant_context = get_relevant_context user_input ch2;
                      prompt = jp_prompt user_input relevant_context (the context_response);
                      resp = gemini prompt;
                      ch3 = ch2\<lparr>history := butlast (history ch2)
                               @ [(last (history ch2))\<lparr>turn_bot_response := resp\<rparr>]\<rparr>;
                      ch4 = (if length (history ch3) > 10
                             then ch3\<lparr>history := last_n 10 (history ch3)\<rparr> else ch3)
                  in (resp, ch4))
               else
                 (let ch1 = ch\<lparr>history := history ch
                               @ [\<lparr>turn_user_input = user_input,
                                   turn_bot_response = jp_fallback_response\<rparr>]\<rparr>
                  in (jp_fallback_response, ch1))))"

text \<open>
  A session: the turns of a conversation in order, each fed the history the previous one
  returned; \<open>run_turns\<close> gives the history after the last turn.
\<close>

fun run_turns ::
  "(string \<Rightarrow> string) \<Rightarrow> (string \<Rightarrow> 'v) \<Rightarrow> ('v \<Rightarrow> 'v \<Rightarrow> real) \<Rightarrow> 'v csv_base \<Rightarrow> real
     \<Rightarrow> context_history \<Rightarrow> string list \<Rightarrow> context_history" where
  "run_turns gemini enc cosine_similarity kb threshold ch [] = ch"
| "run_turns gemini enc cosine_similarity kb threshold ch (user_input # inputs) =
     run_turns gemini enc cosine_similarity kb threshold
       (snd (jp_get_response gemini enc cosine_similarity kb user_input ch threshold)) inputs"

section \<open>The specification's terms\<close>

text \<open>
  The quantities the specification names, written from its own words, to be compared
  with what the code above computes.
\<close>

subsection \<open>Pass 2\<close>

text \<open>
  The rows flagged as strong matches, in index order; the highest of the three component
  scores among them; the highest average among the rows no component of which reaches
  0.65. Both running bests start from 0, as in the code.
\<close>

definition strong_rows :: "('v \<Rightarrow> 'v \<Rightarrow> real) \<Rightarrow> 'v \<Rightarrow> 'v knowledge_base \<Rightarrow> db_item list" where
  "strong_rows cosine_similarity query_embedding kb =
     map fst (filter (\<lambda>entry. is_strong cosine_similarity query_embedding (snd entry)) kb)"

definition weak_rows :: "('v \<Rightarrow> 'v \<Rightarrow> real) \<Rightarrow> 'v \<Rightarrow> 'v knowledge_base \<Rightarrow> db_item list" where
  "weak_rows cosine_similarity query_embedding kb =
     map fst (filter (\<lambda>entry. is_weak cosine_similarity query_embedding (snd entry)) kb)"

definition best_strong :: "('v \<Rightarrow> 'v \<Rightarrow> real) \<Rightarrow> 'v \<Rightarrow> 'v knowledge_base \<Rightarrow> real" where
  "best_strong cosine_similarity query_embedding kb =
     fold max
       (map (\<lambda>entry. max_score cosine_similarity query_embedding (snd entry))
          (filter (\<lambda>entry. is_strong cosine_similarity query_embedding (snd entry)) kb)) 0"

definition best_avg :: "('v \<Rightarrow> 'v \<Rightarrow> real) \<Rightarrow> 'v \<Rightarrow> 'v knowledge_base \<Rightarrow> real" where
  "best_avg cosine_similarity query_embedding kb =
     fold max
       (map (\<lambda>entry. avg_score cosine_similarity query_embedding (snd entry))
          (filter (\<lambda>entry. is_weak cosine_similarity query_embedding (snd entry)) kb)) 0"

text \<open>The first row, in index order, that is not strong and whose average is the best one.\<close>

definition first_best_avg_row ::
  "('v \<Rightarrow> 'v \<Rightarrow> real) \<Rightarrow> 'v \<Rightarrow> 'v knowledge_base \<Rightarrow> db_item option" where
  "first_best_avg_row cosine_similarity query_embedding kb =
     map_option fst
       (List.find (\<lambda>entry. is_weak cosine_similarity query_embedding (snd entry)
                     \<and> avg_score cosine_similarity query_embedding (snd entry)
                         = best_avg cosine_similarity query_embedding kb) kb)"

subsection \<open>Intent routing\<close>

text \<open>
  A keyword occurs in the normalized query; the position recorded for an intent is that
  of its first keyword, in the order of its list, that occurs.
\<close>

definition occurs :: "string \<Rightarrow> string \<Rightarrow> bool" where
  "occurs query_lower keyword = (find query_lower (lower keyword) \<noteq> - 1)"

definition first_position :: "string \<Rightarrow> string list \<Rightarrow> int option" where
  "first_position query_lower kws =
     (case filter (occurs query_lower) kws of
        [] \<Rightarrow> None
      | keyword # _ \<Rightarrow> Some (find query_lower (lower keyword)))"

text \<open>
  The pairs of position and column text, in table order, of the intents that have a
  keyword in the query and a non-empty column in the row.
\<close>

definition found_pairs :: "string \<Rightarrow> db_item \<Rightarrow> (string \<times> string list) list \<Rightarrow> (int \<times> string) list" where
  "found_pairs query_lower item table =
     concat (map (\<lambda>(column, kws).
                    if truthy (dict_get item column)
                    then (case first_position query_lower kws of
                            None \<Rightarrow> []
                          | Some position \<Rightarrow> [(position, the (dict_get item column))])
                    else []) table)"

section \<open>Example data\<close>

text \<open>
  A small knowledge base in the shape of the repository's table, an encoder that keeps
  the text, and similarity functions given by a table of scores (0 where the table has
  no entry).
\<close>

definition cholesterol_item :: db_item where
  "cholesterol_item =
     \<lparr>trigger_word = ''Cholesterol'', synonyms = [''blood fat''], keywords_field = [''lipids''],
      What = ''Cholesterol is a type of fat found in your blood.'',
      Why = [],
      How = ''Eat a low-fat diet, exercise regularly, and take prescribed medications.'',
      Symptoms = []\<rparr>"

definition angina_item :: db_item where
  "angina_item =
     \<lparr>trigger_word = ''Angina'', synonyms = [''chest pain''], keywords_field = [''pectoris''],
      What = ''Angina is chest pain caused by reduced blood flow to the heart.'',
      Why = ''It signals an increased risk of heart attack.'',
      How = ''Manage stress, avoid heavy meals, and follow a healthy lifestyle.'',
      Symptoms = []\<rparr>"

definition tachycardia_item :: db_item where
  "tachycardia_item =
     \<lparr>trigger_word = ''Tachycardia'', synonyms = [''rapid heartbeat''], keywords_field = [''pulse''],
      What = ''Tachycardia is a rapid heartbeat.'',
      Why = [], How = [], Symptoms = []\<rparr>"

definition palpitations_item :: db_item where
  "palpitations_item =
     \<lparr>trigger_word = ''Palpitations'', synonyms = [''fluttering''], keywords_field = [''pounding''],
      What = [], Why = [], How = [],
      Symptoms = ''A racing or pounding heartbeat.''\<rparr>"

definition embed :: "db_item \<Rightarrow> string item_embeddings" where
  "embed item =
     \<lparr>trigger_embedding = trigger_word item, synonyms_embeddings = synonyms item,
      keywords_embeddings = keywords_field item\<rparr>"

definition example_kb :: "string knowledge_base" where
  "example_kb =
     [(cholesterol_item, embed cholesterol_item), (angina_item, embed angina_item),
      (tachycardia_item, embed tachycardia_item)]"

definition example_enc :: "string \<Rightarrow> string" where
  "example_enc text = text"

definition table_cos :: "((string \<times> string) \<times> real) list \<Rightarrow> string \<Rightarrow> string \<Rightarrow> real" where
  "table_cos table a b = (case map_of table (a, b) of Some score \<Rightarrow> score | None \<Rightarrow> 0)"

text \<open>A spell checker that knows one misspelling, and one that corrects nothing.\<close>

definition example_correction :: "string \<Rightarrow> string option" where
  "example_correction word = (if word = ''angna'' then Some ''angina'' else Some word)"

definition no_correction :: "string \<Rightarrow> string option" where
  "no_correction word = None"

text \<open>Scores of the query \<^verbatim>\<open>my heart races\<close>: two strong rows, the first the higher.\<close>

definition races_cos :: "string \<Rightarrow> string \<Rightarrow> real" where
  "races_cos =
     table_cos [((''my heart races'', ''Tachycardia''), 0.7),
                ((''my heart races'', ''Angina''), 0.9)]"

text \<open>Scores of the query \<^verbatim>\<open>fatty blood\<close>: no strong row, two averages above 0.3.\<close>

definition fatty_cos :: "string \<Rightarrow> string \<Rightarrow> real" where
  "fatty_cos =
     table_cos [((''fatty blood'', ''Cholesterol''), 0.4), ((''fatty blood'', ''blood fat''), 0.4),
                ((''fatty blood'', ''lipids''), 0.4),
                ((''fatty blood'', ''Angina''), 0.5), ((''fatty blood'', ''chest pain''), 0.5),
                ((''fatty blood'', ''pectoris''), 0.5)]"

text \<open>The rows of the single-response variants.\<close>

definition angina_csv :: csv_item where
  "angina_csv =
     \<lparr>csv_trigger_word = ''Angina'', csv_synonyms = [''chest pain''], csv_keywords = [''pectoris''],
      response = ''Angina is chest pain caused by reduced blood flow to the heart.''\<rparr>"

definition embed_csv :: "csv_item \<Rightarrow> string item_embeddings" where
  "embed_csv item =
     \<lparr>trigger_embedding = csv_trigger_word item, synonyms_embeddings = csv_synonyms item,
      keywords_embeddings = csv_keywords item\<rparr>"

definition example_csv_base :: "string csv_base" where
  "example_csv_base = [(angina_csv, embed_csv angina_csv)]"

text \<open>Scores of the query \<^verbatim>\<open>angina\<close>: close to the trigger word only.\<close>

definition trigger_only_cos :: "string \<Rightarrow> string \<Rightarrow> real" where
  "trigger_only_cos =
     table_cos [((''angina'', ''Angina''), 0.9), ((''angina'', ''chest pain''), 0.1),
                ((''angina'', ''pectoris''), 0.1)]"

definition example_gemini :: "string \<Rightarrow> string" where
  "example_gemini prompt = ''Here is what I found.''"

definition empty_history :: context_history where
  "empty_history = \<lparr>context_infos = [], history = []\<rparr>"

text \<open>Scores of the query \<^verbatim>\<open>what health\<close> against the domain keywords.\<close>

definition health_cos :: "string \<Rightarrow> string \<Rightarrow> real" where
  "health_cos = table_cos [((''what health'', ''health''), 0.6), ((''what health'', ''heart''), 0.3)]"

text \<open>
  The column the embedding comparison picks when no response was collected:
  \<^verbatim>\<open>best_match_response.get(best_column_name, "")\<close> on a row.
\<close>

definition fallback_column ::
  "(string \<Rightarrow> 'v) \<Rightarrow> ('v \<Rightarrow> 'v \<Rightarrow> real) \<Rightarrow> string \<Rightarrow> db_item \<Rightarrow> string" where
  "fallback_column enc cosine_similarity query_lower item =
     (case dict_get item
             (column_names ! argmax (map (cosine_similarity (enc query_lower)) (column_embeddings enc))) of
        None \<Rightarrow> [] | Some r \<Rightarrow> r)"

text \<open>The position found for each intent of the table, in table order.\<close>

definition keyword_positions :: "string \<Rightarrow> int option list" where
  "keyword_positions query_lower = map (\<lambda>(column, kws). first_position query_lower kws) intent_words"

text \<open>The spelling correction of the examples: it changes no word.\<close>

definition no_spell :: "string \<Rightarrow> string" where
  "no_spell = correct_spelling no_correction"

definition zero_cos :: "string \<Rightarrow> string \<Rightarrow> real" where
  "zero_cos = table_cos []"

text \<open>
  Two conversations of eleven turns: one whose questions match no row, one whose
  questions all match (every similarity is 0.8).
\<close>

definition football_inputs :: "string list" where
  "football_inputs = replicate 11 ''What is football''"

definition angina_inputs :: "string list" where
  "angina_inputs = [''angina 1'', ''angina 2'', ''angina 3'', ''angina 4'', ''angina 5'', ''angina 6'',
     ''angina 7'', ''angina 8'', ''angina 9'', ''angina 10'', ''angina 11'']"

definition high_cos :: "string \<Rightarrow> string \<Rightarrow> real" where
  "high_cos a b = 0.8"

section \<open>Properties\<close>

subsection \<open>Pass 1\<close>

lemma match_generator_filter:
  "match_generator kb qw =
     map fst (filter (\<lambda>entry. set (split (lower (trigger_word (fst entry)))) \<inter> set qw \<noteq> {}) kb)"
  by (induction kb qw rule: match_generator.induct) (simp_all add: Let_def)

text \<open>
  Claim C1. When the lower-cased words of the query share a word with the lower-cased
  trigger word of some row, \<open>find_best_context\<close> returns exactly the rows that share
  a word with the query, in the order of the knowledge base, and the result is the same
  for every encoder, similarity function and threshold: no score takes part in it.
\<close>

theorem pass1_lexical_shortcut:
  assumes "\<exists>entry\<in>set kb.
             set (split (lower (trigger_word (fst entry)))) \<inter> set (split (lower (strip query))) \<noteq> {}"
  shows "find_best_context enc cosine_similarity kb query threshold
           = Some (map fst (filter (\<lambda>entry. set (split (lower (trigger_word (fst entry))))
                                        \<inter> set (split (lower (strip query))) \<noteq> {}) kb))
         \<and> find_best_context enc cosine_similarity kb query threshold
             = find_best_context enc' cosine_similarity' kb query threshold'"
proof -
  let ?P = "\<lambda>entry. set (split (lower (trigger_word (fst entry))))
                    \<inter> set (split (lower (strip query))) \<noteq> {}"
  from assms have "filter ?P kb \<noteq> []"
    by (simp add: filter_empty_conv)
  then have "match_generator kb (query_words query) \<noteq> []"
    by (simp add: match_generator_filter query_words_def)
  then show ?thesis
    by (simp add: find_best_context_def Let_def match_generator_filter query_words_def)
qed

theorem pass1_lexical_shortcut_witness:
  "find_best_context example_enc races_cos example_kb ''What is cholesterol and what is ANGINA'' 0.3
     = Some [cholesterol_item, angina_item]
   \<and> find_best_context example_enc races_cos example_kb ''What is cholesterol and what is ANGINA'' 0.3
     = find_best_context example_enc fatty_cos example_kb ''What is cholesterol and what is ANGINA'' 0.9"
proof -
  have h: "\<exists>entry\<in>set example_kb.
             set (split (lower (trigger_word (fst entry))))
               \<inter> set (split (lower (strip ''What is cholesterol and what is ANGINA''))) \<noteq> {}"
    by code_simp
  have e: "map fst (filter (\<lambda>entry. set (split (lower (trigger_word (fst entry))))
                \<inter> set (split (lower (strip ''What is cholesterol and what is ANGINA''))) \<noteq> {}) example_kb)
           = [cholesterol_item, angina_item]"
    by code_simp
  show ?thesis
    using pass1_lexical_shortcut [OF h, of example_enc races_cos "0.3" example_enc fatty_cos "0.9"]
    unfolding e .
qed

subsection \<open>Domain gate\<close>

lemma any_ge_iff: "any_ge t xs \<longleftrightarrow> (\<exists>s\<in>set xs. t \<le> s)"
  by (induction xs) auto

lemma is_domain_relevant_iff:
  "is_domain_relevant enc cosine_similarity query threshold
     \<longleftrightarrow> (\<exists>k\<in>set domain_keywords. threshold \<le> cosine_similarity (enc (lower query)) (enc k))"
  by (simp add: is_domain_relevant_def any_ge_iff domain_embeddings_def Let_def)

text \<open>
  Claim C8. \<open>is_domain_relevant\<close> holds exactly when the similarity of the query
  embedding to the embedding of some domain keyword is at least the threshold; hence a
  query relevant at a threshold is relevant at every lower one.
\<close>

theorem domain_gate_monotone:
  "(is_domain_relevant enc cosine_similarity query threshold
      \<longleftrightarrow> (\<exists>k\<in>set domain_keywords. cosine_similarity (enc (lower query)) (enc k) \<ge> threshold))
   \<and> (t1 \<le> t2 \<longrightarrow> is_domain_relevant enc cosine_similarity query t2
        \<longrightarrow> is_domain_relevant enc cosine_similarity query t1)"
proof (intro conjI impI)
  show "is_domain_relevant enc cosine_similarity query threshold
      \<longleftrightarrow> (\<exists>k\<in>set domain_keywords. cosine_similarity (enc (lower query)) (enc k) \<ge> threshold)"
    by (rule is_domain_relevant_iff)
next
  assume le: "t1 \<le> t2" and r: "is_domain_relevant enc cosine_similarity query t2"
  from r obtain k where k: "k \<in> set domain_keywords"
    and s: "t2 \<le> cosine_similarity (enc (lower query)) (enc k)"
    unfolding is_domain_relevant_iff by blast
  from le s have "t1 \<le> cosine_similarity (enc (lower query)) (enc k)" by simp
  with k show "is_domain_relevant enc cosine_similarity query t1"
    unfolding is_domain_relevant_iff by blast
qed

theorem domain_gate_monotone_witness:
  "is_domain_relevant example_enc health_cos ''What health'' 0.5
   \<and> is_domain_relevant example_enc health_cos ''What health'' domain_threshold
   \<and> \<not> is_domain_relevant example_enc health_cos ''What health'' 0.7"
proof -
  have r: "is_domain_relevant example_enc health_cos ''What health'' 0.5"
    by code_simp
  have n: "\<not> is_domain_relevant example_enc health_cos ''What health'' 0.7"
    by code_simp
  have le: "domain_threshold \<le> 0.5"
    by (simp add: domain_threshold_def)
  from domain_gate_monotone [of example_enc health_cos "''What health''" "0.5" domain_threshold "0.5"] le r n
  show ?thesis by blast
qed

subsection \<open>Single words are not corrected\<close>

text \<open>
  Claim C10. On a text of at most one word \<open>correct_spelling\<close> is the identity, so a
  single-word query whose direct match fails goes straight to the domain gate: the
  answer is the generated one when the query is relevant and the refusal otherwise.
\<close>

theorem single_word_skips_correction:
  assumes "length (split user_input) \<le> 1"
  shows "correct_spelling correction user_input = user_input
         \<and> (\<not> truthy (csv_find_best_context enc cosine_similarity kb user_input threshold)
              \<longrightarrow> csv_get_response correction enc cosine_similarity kb user_input threshold
                    = (if is_domain_relevant enc cosine_similarity user_input domain_threshold
                       then generate_response_with_placeholder (prompt_of user_input)
                       else fallback_response))"
proof -
  from assms have c: "correct_spelling correction user_input = user_input"
    by (simp add: correct_spelling_def)
  then show ?thesis
    by (simp add: csv_get_response_def Let_def gate_and_fallback_def truthy_def)
qed

theorem single_word_skips_correction_witness:
  "correct_spelling example_correction ''angna'' = ''angna''
   \<and> csv_get_response example_correction example_enc trigger_only_cos example_csv_base ''angna'' 0.7
       = fallback_response"
proof -
  have h: "length (split ''angna'') \<le> 1"
    by code_simp
  have n: "\<not> truthy (csv_find_best_context example_enc trigger_only_cos example_csv_base ''angna'' 0.7)"
    by code_simp
  have g: "\<not> is_domain_relevant example_enc trigger_only_cos ''angna'' domain_threshold"
    by code_simp
  from single_word_skips_correction [OF h, of example_correction example_enc trigger_only_cos
      example_csv_base "0.7"] n g
  show ?thesis by simp
qed

subsection \<open>The intent router on one row\<close>

lemma first_position_Nil [simp]: "first_position ql [] = None"
  by (simp add: first_position_def)

lemma first_position_Cons:
  "first_position ql (k # ks) =
     (if find ql (lower k) \<noteq> - 1 then Some (find ql (lower k)) else first_position ql ks)"
  by (simp add: first_position_def occurs_def)

lemma first_position_None_iff:
  "first_position ql ks = None \<longleftrightarrow> (\<forall>k\<in>set ks. \<not> occurs ql k)"
  by (induction ks) (auto simp: first_position_Cons occurs_def)

lemma scan_keywords_Row:
  "scan_keywords ql (Row item) column ks =
     Inr (if truthy (dict_get item column)
          then map_option (\<lambda>position. (position, the (dict_get item column))) (first_position ql ks)
          else None)"
  by (induction ks) (simp_all add: first_position_Cons Let_def)

lemma found_pairs_Nil [simp]: "found_pairs ql item [] = []"
  by (simp add: found_pairs_def)

lemma found_pairs_Cons:
  "found_pairs ql item ((column, ks) # table) =
     (if truthy (dict_get item column)
      then (case first_position ql ks of
              None \<Rightarrow> []
            | Some position \<Rightarrow> [(position, the (dict_get item column))])
      else []) @ found_pairs ql item table"
  by (simp add: found_pairs_def)

lemma scan_intents_Row:
  "scan_intents ql (Row item) table (mc, mf) =
     Inr (mc @ found_pairs ql item table, mf \<or> found_pairs ql item table \<noteq> [])"
proof (induction table arbitrary: mc mf)
  case Nil
  then show ?case by simp
next
  case (Cons entry table)
  obtain column ks where entry: "entry = (column, ks)" by (cases entry)
  show ?case
    unfolding entry
    by (cases "first_position ql ks")
       (simp_all add: scan_keywords_Row found_pairs_Cons Cons.IH)
qed

lemma found_pairs_Cons_empty:
  "found_pairs ql item ((column, ks) # table) = [] \<longleftrightarrow>
     (truthy (dict_get item column) \<longrightarrow> first_position ql ks = None)
     \<and> found_pairs ql item table = []"
  by (auto simp: found_pairs_Cons split: option.splits)

lemma found_pairs_empty_iff:
  "found_pairs ql item table = [] \<longleftrightarrow>
     (\<forall>(column, ks)\<in>set table. truthy (dict_get item column) \<longrightarrow> (\<forall>k\<in>set ks. \<not> occurs ql k))"
proof (induction table)
  case Nil
  then show ?case by simp
next
  case (Cons entry table)
  obtain column ks where entry: "entry = (column, ks)" by (cases entry)
  show ?case
    unfolding entry using Cons.IH
    by (simp add: found_pairs_Cons_empty first_position_None_iff)
qed

lemma first_intent: "intent_words \<noteq> [] \<and> fst (hd intent_words) = ''What''"
  by (simp add: intent_words_def)

lemma dict_get_What: "dict_get item ''What'' = Some (What item)"
  by (simp add: dict_get_def)

lemma sort_key_empty_iff: "sort_key f pairs = [] \<longleftrightarrow> pairs = []"
proof -
  have "length (sort_key f pairs) = length pairs" by simp
  then show ?thesis by (metis length_0_conv)
qed

lemma match_columns_Row:
  "match_columns spell enc cosine_similarity query (Row item) =
     Inr (if found_pairs (spell (lower query)) item intent_words \<noteq> []
          then (join '' '' (map snd (sort_key fst (found_pairs (spell (lower query)) item intent_words))), 0)
          else if What item \<noteq> [] then (What item, 1)
          else (fallback_column enc cosine_similarity (spell (lower query)) item, 0))"
  by (simp add: match_columns_def add_default_def scan_intents_Row first_intent dict_get_What
        truthy_def Let_def sort_key_empty_iff fallback_column_def)


subsection \<open>Positions\<close>

lemma find_from_bounds: "find_from i s sub = - 1 \<or> int i \<le> find_from i s sub"
proof (induction s arbitrary: i)
  case Nil
  then show ?case by simp
next
  case (Cons d s)
  from Cons.IH [of "Suc i"] show ?case by auto
qed

lemma startswith_append: "startswith (sub @ post) sub"
  by (induction sub) simp_all

lemma find_from_startswith: "startswith s sub \<Longrightarrow> find_from i s sub = int i"
  by (cases s; cases sub) simp_all

lemma find_from_occurs: "find_from i (pre @ sub @ post) sub \<noteq> - 1"
proof (induction pre arbitrary: i)
  case Nil
  show ?case
    by (simp add: find_from_startswith [OF startswith_append])
next
  case (Cons p pre)
  then show ?case by simp
qed

lemma find_zero_startswith: "find s sub = 0 \<Longrightarrow> startswith s sub"
proof (cases s)
  case Nil
  assume "find s sub = 0"
  with Nil show ?thesis by (cases sub) (simp_all add: find_def)
next
  case (Cons d t)
  assume z: "find s sub = 0"
  show ?thesis
  proof (rule ccontr)
    assume n: "\<not> startswith s sub"
    with z Cons have "find_from (Suc 0) t sub = 0" by (simp add: find_def)
    with find_from_bounds [of "Suc 0" t sub] show False by simp
  qed
qed

lemma first_position_Some:
  "first_position ql ks = Some p \<Longrightarrow> \<exists>k\<in>set ks. p = find ql (lower k) \<and> p \<noteq> - 1"
  by (induction ks) (auto simp: first_position_Cons split: if_splits)

lemma first_position_nonneg: "first_position ql ks = Some p \<Longrightarrow> 0 \<le> p"
proof -
  assume "first_position ql ks = Some p"
  then obtain k where "p = find ql (lower k)" and "p \<noteq> - 1"
    using first_position_Some by blast
  with find_from_bounds [of 0 ql "lower k"] show ?thesis by (simp add: find_def)
qed

lemma first_position_positive:
  assumes "\<forall>k\<in>set ks. \<not> startswith ql (lower k)" and "first_position ql ks = Some p"
  shows "0 < p"
proof -
  from assms(2) obtain k where k: "k \<in> set ks" and p: "p = find ql (lower k)" and n: "p \<noteq> - 1"
    using first_position_Some by blast
  from assms(1) k have "\<not> startswith ql (lower k)" by blast
  with find_zero_startswith [of ql "lower k"] p have "p \<noteq> 0" by auto
  with first_position_nonneg [OF assms(2)] show ?thesis by simp
qed

subsection \<open>Stable sorting of a least element\<close>

lemma foldr_insort_above:
  "\<forall>x\<in>set xs. f e < f x \<Longrightarrow>
     foldr (insort_key f) xs (e # zs) = e # foldr (insort_key f) xs zs"
  by (induction xs) auto

lemma sort_key_least:
  assumes "\<forall>x\<in>set xs. f e < f x" and "\<forall>y\<in>set ys. f e \<le> f y"
  shows "sort_key f (xs @ e # ys) = e # sort_key f (xs @ ys)"
proof -
  have "insort_key f e (sort_key f ys) = e # sort_key f ys"
    using assms(2) by (intro insort_is_Cons) simp
  then show ?thesis
    using foldr_insort_above [OF assms(1), of "sort_key f ys"]
    by (simp add: sort_key_def)
qed

subsection \<open>Why before What\<close>

lemma intent_words_shape:
  "\<exists>wk sk yk hk.
     intent_words = [(''What'', ''What'' # wk), (''Symptoms'', sk), (''Why'', ''Why'' # yk), (''How'', hk)]
     \<and> (\<forall>k\<in>set sk. \<forall>t. \<not> startswith (CHR ''w'' # CHR ''h'' # CHR ''y'' # t) (lower k))"
  by (simp add: intent_words_def lower_def lower_char_def lower_table_def)

lemma lower_what_why: "lower ''What'' = ''what'' \<and> lower ''Why'' = ''why''"
  by (simp add: lower_def lower_char_def lower_table_def)

lemma pairs_positive:
  assumes "\<And>q. fp = Some q \<Longrightarrow> (0::int) < q"
  shows "\<forall>x\<in>set (if c then (case fp of None \<Rightarrow> [] | Some q \<Rightarrow> [(q, v)]) else []). 0 < fst x"
proof (cases fp)
  case None
  show ?thesis
    unfolding None by (simp only: option.case if_cancel list.set ball_empty)
next
  case (Some q)
  from assms [OF Some] have "0 < q" .
  then show ?thesis
    unfolding Some
    by (cases c) (simp_all only: option.case list.set ball_simps fst_conv if_True if_False)
qed

lemma pairs_nonneg:
  assumes "\<And>q. fp = Some q \<Longrightarrow> (0::int) \<le> q"
  shows "\<forall>x\<in>set (if c then (case fp of None \<Rightarrow> [] | Some q \<Rightarrow> [(q, v)]) else []). 0 \<le> fst x"
proof (cases fp)
  case None
  show ?thesis
    unfolding None by (simp only: option.case if_cancel list.set ball_empty)
next
  case (Some q)
  from assms [OF Some] have "0 \<le> q" .
  then show ?thesis
    unfolding Some
    by (cases c) (simp_all only: option.case list.set ball_simps fst_conv if_True if_False)
qed

lemma why_before_what:
  assumes ql: "spell (lower query) = ''why does '' @ X @ '' happen and what is '' @ X"
    and w: "What item \<noteq> []" and y: "Why item \<noteq> []"
  shows "\<exists>rest. match_columns spell enc cosine_similarity query (Row item)
                  = Inr (join '' '' (Why item # rest), 0)
               \<and> What item \<in> set rest"
proof -
  let ?ql = "''why does '' @ X @ '' happen and what is '' @ X"
  obtain wk sk yk hk where
    iw: "intent_words = [(''What'', ''What'' # wk), (''Symptoms'', sk), (''Why'', ''Why'' # yk), (''How'', hk)]"
    and sp: "\<forall>k\<in>set sk. \<forall>t. \<not> startswith (CHR ''w'' # CHR ''h'' # CHR ''y'' # t) (lower k)"
    using intent_words_shape by blast
  have fy: "find ?ql ''why'' = 0"
    by (simp add: find_def)
  have "find_from 0 ((''why does '' @ X @ '' happen and '') @ ''what'' @ ('' is '' @ X)) ''what'' \<noteq> - 1"
    by (rule find_from_occurs)
  then have fw1: "find ?ql ''what'' \<noteq> - 1"
    by (simp add: find_def)
  have fw2: "\<not> startswith ?ql ''what''"
    by simp
  define p where "p = find ?ql ''what''"
  have pw: "0 < p"
  proof -
    from fw2 find_zero_startswith [of ?ql "''what''"] have "p \<noteq> 0"
      unfolding p_def by blast
    with fw1 find_from_bounds [of 0 ?ql "''what''"] show ?thesis
      unfolding p_def find_def by simp
  qed
  have W: "first_position ?ql (''What'' # wk) = Some p"
    using fw1 by (simp add: first_position_Cons lower_what_why p_def)
  have Y: "first_position ?ql (''Why'' # yk) = Some 0"
    using fy by (simp add: first_position_Cons lower_what_why)
  define S where "S =
    (if truthy (dict_get item ''Symptoms'')
     then (case first_position ?ql sk of
             None \<Rightarrow> [] | Some q \<Rightarrow> [(q, the (dict_get item ''Symptoms''))])
     else [])"
  define H where "H =
    (if truthy (dict_get item ''How'')
     then (case first_position ?ql hk of
             None \<Rightarrow> [] | Some q \<Rightarrow> [(q, the (dict_get item ''How''))])
     else [])"
  have sk_pre: "\<forall>k\<in>set sk. \<not> startswith ?ql (lower k)"
    using sp by simp
  have Spos: "\<forall>x\<in>set S. 0 < fst x"
    unfolding S_def
    by (rule pairs_positive) (rule first_position_positive [OF sk_pre])
  have Hnn: "\<forall>x\<in>set H. 0 \<le> fst x"
    unfolding H_def
    by (rule pairs_nonneg) (rule first_position_nonneg)
  have fp: "found_pairs ?ql item intent_words = ((p, What item) # S) @ (0, Why item) # H"
    unfolding iw found_pairs_Cons found_pairs_Nil W Y S_def H_def
    by (simp add: dict_get_def truthy_def w y)
  have srt: "sort_key fst (((p, What item) # S) @ (0, Why item) # H)
              = (0, Why item) # sort_key fst (((p, What item) # S) @ H)"
    by (rule sort_key_least) (use pw Spos Hnn in auto)
  let ?rest = "map snd (sort_key fst (((p, What item) # S) @ H))"
  have "(p, What item) \<in> set (((p, What item) # S) @ H)"
    by simp
  then have "(p, What item) \<in> set (sort_key fst (((p, What item) # S) @ H))"
    by (simp only: set_sort)
  then have mem: "What item \<in> set ?rest"
    by (simp only: set_map) force
  have "match_columns spell enc cosine_similarity query (Row item)
          = Inr (join '' '' (Why item # ?rest), 0)"
    unfolding match_columns_Row ql fp srt by simp
  with mem show ?thesis by blast
qed

text \<open>
  Claim C3, amended. When some intent has a keyword occurring in the normalized query
  and a non-empty column in the row (in particular when two or more intents have a
  keyword and one of their columns is non-empty), the router returns the non-empty
  columns of the intents that have a keyword, joined by one space, in ascending order of
  the position of each intent's first occurring keyword (intents at the same position in
  table order), and does not flag the result as a default. In particular, when the
  normalized query is \<^verbatim>\<open>why does X happen and what is X\<close> and the row has a What and a
  Why text, the answer begins with the Why text and the What text comes later in it.
\<close>

theorem intent_router_position_order:
  "((\<exists>(column, ks)\<in>set intent_words.
        (\<exists>k\<in>set ks. occurs (spell (lower query)) k) \<and> truthy (dict_get item column))
      \<longrightarrow> match_columns spell enc cosine_similarity query (Row item)
            = Inr (join '' '' (map snd (sort_key fst
                     (found_pairs (spell (lower query)) item intent_words))), 0)
          \<and> sorted (map fst (sort_key fst (found_pairs (spell (lower query)) item intent_words))))
   \<and> (spell (lower query) = ''why does '' @ X @ '' happen and what is '' @ X
        \<and> What item \<noteq> [] \<and> Why item \<noteq> []
      \<longrightarrow> (\<exists>rest. match_columns spell enc cosine_similarity query (Row item)
                     = Inr (join '' '' (Why item # rest), 0)
                  \<and> What item \<in> set rest))"
proof (rule conjI)
  show "(\<exists>(column, ks)\<in>set intent_words.
        (\<exists>k\<in>set ks. occurs (spell (lower query)) k) \<and> truthy (dict_get item column))
      \<longrightarrow> match_columns spell enc cosine_similarity query (Row item)
            = Inr (join '' '' (map snd (sort_key fst
                     (found_pairs (spell (lower query)) item intent_words))), 0)
          \<and> sorted (map fst (sort_key fst (found_pairs (spell (lower query)) item intent_words)))"
  proof (rule impI)
    assume "\<exists>(column, ks)\<in>set intent_words.
        (\<exists>k\<in>set ks. occurs (spell (lower query)) k) \<and> truthy (dict_get item column)"
    then have "found_pairs (spell (lower query)) item intent_words \<noteq> []"
      unfolding found_pairs_empty_iff by blast
    then show "match_columns spell enc cosine_similarity query (Row item)
            = Inr (join '' '' (map snd (sort_key fst
                     (found_pairs (spell (lower query)) item intent_words))), 0)
          \<and> sorted (map fst (sort_key fst (found_pairs (spell (lower query)) item intent_words)))"
      by (simp add: match_columns_Row)
  qed
next
  show "spell (lower query) = ''why does '' @ X @ '' happen and what is '' @ X
        \<and> What item \<noteq> [] \<and> Why item \<noteq> []
      \<longrightarrow> (\<exists>rest. match_columns spell enc cosine_similarity query (Row item)
                     = Inr (join '' '' (Why item # rest), 0)
                  \<and> What item \<in> set rest)"
    using why_before_what [of spell query X item enc cosine_similarity] by blast
qed

theorem intent_router_position_order_witness:
  "match_columns no_spell example_enc zero_cos ''Why does angina happen and what is angina'' (Row angina_item)
     = Inr (Why angina_item @ '' '' @ How angina_item @ '' '' @ What angina_item, 0)
   \<and> keyword_positions ''why does angina happen and what is angina'' = [Some 27, None, Some 0, Some 4]
   \<and> (\<exists>rest. match_columns no_spell example_enc zero_cos
                 ''Why does angina happen and what is angina'' (Row angina_item)
                = Inr (join '' '' (Why angina_item # rest), 0)
              \<and> What angina_item \<in> set rest)"
proof -
  have q: "no_spell (lower ''Why does angina happen and what is angina'')
             = ''why does '' @ ''angina'' @ '' happen and what is '' @ ''angina''"
    by code_simp
  have q': "''why does '' @ ''angina'' @ '' happen and what is '' @ ''angina''
             = ''why does angina happen and what is angina''"
    by simp
  have h: "\<exists>(column, ks)\<in>set intent_words.
             (\<exists>k\<in>set ks. occurs (no_spell (lower ''Why does angina happen and what is angina'')) k)
               \<and> truthy (dict_get angina_item column)"
    unfolding q by code_simp
  have n: "What angina_item \<noteq> [] \<and> Why angina_item \<noteq> []"
    by code_simp
  have e: "join '' '' (map snd (sort_key fst
             (found_pairs ''why does angina happen and what is angina'' angina_item intent_words)))
           = Why angina_item @ '' '' @ How angina_item @ '' '' @ What angina_item"
    by code_simp
  have k: "keyword_positions ''why does angina happen and what is angina'' = [Some 27, None, Some 0, Some 4]"
    by code_simp
  note t = intent_router_position_order [where spell = no_spell
        and query = "''Why does angina happen and what is angina''" and item = angina_item
        and enc = example_enc and cosine_similarity = zero_cos and X = "''angina''"]
  from t h have "match_columns no_spell example_enc zero_cos
         ''Why does angina happen and what is angina'' (Row angina_item)
       = Inr (join '' '' (map snd (sort_key fst
            (found_pairs (no_spell (lower ''Why does angina happen and what is angina''))
               angina_item intent_words))), 0)"
    by blast
  then have a: "match_columns no_spell example_enc zero_cos
         ''Why does angina happen and what is angina'' (Row angina_item)
       = Inr (Why angina_item @ '' '' @ How angina_item @ '' '' @ What angina_item, 0)"
    unfolding q q' e .
  from t q n have b: "\<exists>rest. match_columns no_spell example_enc zero_cos
                 ''Why does angina happen and what is angina'' (Row angina_item)
                = Inr (join '' '' (Why angina_item # rest), 0)
              \<and> What angina_item \<in> set rest"
    by blast
  from a k b show ?thesis by blast
qed

text \<open>
  Claim C3 as stated fails where every intent that has a keyword in the query has an
  empty column: the query below has a keyword of Why and of How, both columns of the row
  are empty, and the router returns the What column, flagged as a default, instead of an
  empty text.
\<close>

theorem intent_router_empty_columns_counterexample:
  "keyword_positions ''why and how does tachycardia happen'' = [None, None, Some 0, Some 8]
   \<and> Why tachycardia_item = [] \<and> How tachycardia_item = []
   \<and> match_columns no_spell example_enc zero_cos ''Why and how does tachycardia happen''
         (Row tachycardia_item) = Inr (What tachycardia_item, 1)
   \<and> What tachycardia_item \<noteq> []"
  by code_simp

text \<open>
  Claim C4, amended. If no intent keyword occurs in the normalized query and the column
  of the first intent of the table (What) is non-empty, the router returns that column
  and flags a default match. The flag is 1 exactly when the default was taken: when no
  intent has both a keyword in the query and a non-empty column, and the What column is
  non-empty. Otherwise the flag is 0.
\<close>

theorem weak_match_default:
  "((\<forall>(column, ks)\<in>set intent_words. \<forall>k\<in>set ks. \<not> occurs (spell (lower query)) k) \<and> What item \<noteq> []
      \<longrightarrow> match_columns spell enc cosine_similarity query (Row item) = Inr (What item, 1))
   \<and> ((\<exists>r. match_columns spell enc cosine_similarity query (Row item) = Inr (r, 1))
        \<longleftrightarrow> (\<forall>(column, ks)\<in>set intent_words.
               truthy (dict_get item column) \<longrightarrow> (\<forall>k\<in>set ks. \<not> occurs (spell (lower query)) k))
            \<and> What item \<noteq> [])
   \<and> (\<exists>r flag. match_columns spell enc cosine_similarity query (Row item) = Inr (r, flag)
          \<and> (flag = 0 \<or> flag = 1))"
proof (intro conjI impI)
  assume a: "(\<forall>(column, ks)\<in>set intent_words. \<forall>k\<in>set ks. \<not> occurs (spell (lower query)) k)
             \<and> What item \<noteq> []"
  then have "found_pairs (spell (lower query)) item intent_words = []"
    unfolding found_pairs_empty_iff by blast
  with a show "match_columns spell enc cosine_similarity query (Row item) = Inr (What item, 1)"
    by (simp add: match_columns_Row)
next
  show "(\<exists>r. match_columns spell enc cosine_similarity query (Row item) = Inr (r, 1))
        \<longleftrightarrow> (\<forall>(column, ks)\<in>set intent_words.
               truthy (dict_get item column) \<longrightarrow> (\<forall>k\<in>set ks. \<not> occurs (spell (lower query)) k))
            \<and> What item \<noteq> []"
    unfolding found_pairs_empty_iff [symmetric]
    by (simp add: match_columns_Row)
next
  show "\<exists>r flag. match_columns spell enc cosine_similarity query (Row item) = Inr (r, flag)
          \<and> (flag = 0 \<or> flag = 1)"
    by (simp add: match_columns_Row)
qed

theorem weak_match_default_witness:
  "match_columns no_spell example_enc zero_cos ''Angina'' (Row angina_item) = Inr (What angina_item, 1)
   \<and> keyword_positions ''angina'' = [None, None, None, None]"
proof -
  have q: "no_spell (lower ''Angina'') = ''angina''"
    by code_simp
  have h: "(\<forall>(column, ks)\<in>set intent_words. \<forall>k\<in>set ks. \<not> occurs (no_spell (lower ''Angina'')) k)
           \<and> What angina_item \<noteq> []"
    unfolding q by code_simp
  have k: "keyword_positions ''angina'' = [None, None, None, None]"
    by code_simp
  from weak_match_default [where spell = no_spell and query = "''Angina''" and item = angina_item
        and enc = example_enc and cosine_similarity = zero_cos] h k
  show ?thesis by blast
qed

text \<open>
  Claim C4 as stated fails on a row whose What column is empty: no keyword occurs in the
  query, the first non-empty column in table order is Symptoms, and the router returns
  the column the embedding comparison picks (here the empty What column) with flag 0.
\<close>

theorem weak_match_first_column_only_counterexample:
  "keyword_positions (no_spell (lower ''Palpitations'')) = [None, None, None, None]
   \<and> What palpitations_item = [] \<and> Symptoms palpitations_item \<noteq> []
   \<and> match_columns no_spell example_enc zero_cos ''Palpitations'' (Row palpitations_item) = Inr ([], 0)"
  by code_simp

subsection \<open>A list of rows in place of a row\<close>

lemma scan_keywords_Rows:
  "scan_keywords ql (Rows items) column ks = Inl AttributeError
   \<or> scan_keywords ql (Rows items) column ks = Inr None"
  by (induction ks) (simp_all add: Let_def)

lemma scan_intents_Rows:
  "scan_intents ql (Rows items) table ([], False) = Inl AttributeError
   \<or> scan_intents ql (Rows items) table ([], False) = Inr ([], False)"
proof (induction table)
  case Nil
  then show ?case by simp
next
  case (Cons entry table)
  obtain column ks where entry: "entry = (column, ks)" by (cases entry)
  from scan_keywords_Rows [of ql items column ks] Cons.IH show ?case
    unfolding entry by auto
qed

lemma match_columns_Rows:
  "match_columns spell enc cosine_similarity query (Rows items) = Inl AttributeError"
  using scan_intents_Rows [of "spell (lower query)" items intent_words]
  by (auto simp: match_columns_def add_default_def first_intent Let_def)

subsection \<open>The flag after the loop over the matched rows\<close>

lemma match_columns_Row_total:
  "\<exists>r flag. match_columns spell enc cosine_similarity query (Row item) = Inr (r, flag)"
  by (simp add: match_columns_Row)

lemma route_all_flag_last:
  "\<exists>combined r flag.
     match_columns spell enc cosine_similarity user_input (Row row) = Inr (r, flag)
     \<and> route_all spell enc cosine_similarity user_input (rows @ [row]) acc
         = Inr (combined, Some flag)"
proof (induction rows arbitrary: acc)
  case Nil
  obtain r flag where m: "match_columns spell enc cosine_similarity user_input (Row row) = Inr (r, flag)"
    using match_columns_Row_total by blast
  obtain c f where acc: "acc = (c, f)" by (cases acc)
  show ?case
    unfolding acc using m by simp
next
  case (Cons x rows)
  obtain rx fx where m: "match_columns spell enc cosine_similarity user_input (Row x) = Inr (rx, fx)"
    using match_columns_Row_total by blast
  obtain c f where acc: "acc = (c, f)" by (cases acc)
  from Cons.IH [of "(if rx \<noteq> [] then c @ [rx] else c, Some fx)"] show ?case
    unfolding acc using m by simp
qed

text \<open>
  Claim C5 on the code: after the loop over the matched rows the variable
  \<^verbatim>\<open>best_match_response_flag\<close> holds the flag of the last row, whatever the rows before
  it gave, and it alone decides the disclaimer. Here the first row is answered by the
  default (flag 1), the last one by a keyword (flag 0), and the joined answer carries no
  disclaimer.
\<close>

theorem disclaimer_follows_last_row:
  "(\<exists>combined r flag.
      match_columns spell enc cosine_similarity user_input (Row row) = Inr (r, flag)
      \<and> route_all spell enc cosine_similarity user_input (rows @ [row]) ([], None)
          = Inr (combined, Some flag))
   \<and> find_best_context example_enc zero_cos example_kb ''Why cholesterol angina'' 0.3
     = Some [cholesterol_item, angina_item]
   \<and> match_columns no_spell example_enc zero_cos ''Why cholesterol angina'' (Row cholesterol_item)
     = Inr (What cholesterol_item, 1)
   \<and> match_columns no_spell example_enc zero_cos ''Why cholesterol angina'' (Row angina_item)
     = Inr (Why angina_item, 0)
   \<and> get_response no_spell example_enc zero_cos example_kb ''Why cholesterol angina'' 0.3
     = Inr (What cholesterol_item @ separator @ Why angina_item)"
proof -
  have "find_best_context example_enc zero_cos example_kb ''Why cholesterol angina'' 0.3
     = Some [cholesterol_item, angina_item]
   \<and> match_columns no_spell example_enc zero_cos ''Why cholesterol angina'' (Row cholesterol_item)
     = Inr (What cholesterol_item, 1)
   \<and> match_columns no_spell example_enc zero_cos ''Why cholesterol angina'' (Row angina_item)
     = Inr (Why angina_item, 0)
   \<and> get_response no_spell example_enc zero_cos example_kb ''Why cholesterol angina'' 0.3
     = Inr (What cholesterol_item @ separator @ Why angina_item)"
    by code_simp
  with route_all_flag_last [of spell enc cosine_similarity user_input row rows "([], None)"]
  show ?thesis by blast
qed

text \<open>
  Claim C7 on the code: \<open>match_columns\<close> raises \<^verbatim>\<open>AttributeError\<close> on every list of
  rows, and the retry after spelling correction passes it the list that
  \<open>find_best_context\<close> returned. Here the direct match fails, the corrected input
  matches a trigger word, and \<open>get_response\<close> ends with the exception.
\<close>

theorem retry_passes_list_to_router:
  "match_columns spell enc cosine_similarity query (Rows items) = Inl AttributeError
   \<and> find_best_context example_enc zero_cos example_kb ''what is angna'' 0.3 = None
   \<and> correct_spelling example_correction ''what is angna'' = ''what is angina''
   \<and> find_best_context example_enc zero_cos example_kb ''what is angina'' 0.3 = Some [angina_item]
   \<and> get_response (correct_spelling example_correction) example_enc zero_cos example_kb
        ''what is angna'' 0.3 = Inl AttributeError"
proof -
  have "find_best_context example_enc zero_cos example_kb ''what is angna'' 0.3 = None
   \<and> correct_spelling example_correction ''what is angna'' = ''what is angina''
   \<and> find_best_context example_enc zero_cos example_kb ''what is angina'' 0.3 = Some [angina_item]
   \<and> get_response (correct_spelling example_correction) example_enc zero_cos example_kb
        ''what is angna'' 0.3 = Inl AttributeError"
    by code_simp
  then show ?thesis
    by (simp add: match_columns_Rows)
qed

subsection \<open>Pass 2\<close>

lemma weak_iff_not_strong:
  "is_weak cosine_similarity qe emb \<longleftrightarrow> \<not> is_strong cosine_similarity qe emb"
  by (auto simp: is_weak_def is_strong_def)

lemma weak_avg_less:
  "is_weak cosine_similarity qe emb \<Longrightarrow> avg_score cosine_similarity qe emb < 0.65"
  by (simp add: is_weak_def avg_score_def Let_def)

lemma strong_max_ge:
  "is_strong cosine_similarity qe emb \<Longrightarrow> 0.65 \<le> max_score cosine_similarity qe emb"
  by (auto simp: is_strong_def max_score_def)

lemma fold_max_snoc: "fold max (xs @ [x]) (b::real) = max x (fold max xs b)"
  by simp

lemma fold_max_ge_start: "(b::real) \<le> fold max xs b"
  by (induction xs arbitrary: b) (auto intro: order_trans [OF max.cobounded2])

lemma fold_max_ge_elem: "x \<in> set xs \<Longrightarrow> (x::real) \<le> fold max xs b"
proof (induction xs arbitrary: b)
  case Nil
  then show ?case by simp
next
  case (Cons y ys)
  show ?case
  proof (cases "x = y")
    case True
    have "y \<le> max y b" by simp
    also have "\<dots> \<le> fold max ys (max y b)" by (rule fold_max_ge_start)
    finally show ?thesis using True by simp
  next
    case False
    with Cons.prems have "x \<in> set ys" by simp
    then show ?thesis using Cons.IH by simp
  qed
qed

lemma fold_max_less: "b < c \<Longrightarrow> \<forall>x\<in>set xs. x < c \<Longrightarrow> fold max xs (b::real) < c"
  by (induction xs arbitrary: b) auto

lemma best_avg_snoc:
  "best_avg cosine_similarity qe (kb @ [e]) =
     (if is_weak cosine_similarity qe (snd e)
      then max (avg_score cosine_similarity qe (snd e)) (best_avg cosine_similarity qe kb)
      else best_avg cosine_similarity qe kb)"
  by (simp add: best_avg_def)

lemma best_avg_nonneg: "0 \<le> best_avg cosine_similarity qe kb"
  unfolding best_avg_def by (rule fold_max_ge_start)

lemma best_avg_less: "best_avg cosine_similarity qe kb < 0.65"
  unfolding best_avg_def
  by (rule fold_max_less) (use weak_avg_less in force)+

lemma weak_avg_le_best:
  "e \<in> set kb \<Longrightarrow> is_weak cosine_similarity qe (snd e)
     \<Longrightarrow> avg_score cosine_similarity qe (snd e) \<le> best_avg cosine_similarity qe kb"
  unfolding best_avg_def
  by (rule fold_max_ge_elem) auto

lemma best_strong_cases:
  "(filter (\<lambda>entry. is_strong cosine_similarity qe (snd entry)) kb = []
      \<and> best_strong cosine_similarity qe kb = 0)
   \<or> (filter (\<lambda>entry. is_strong cosine_similarity qe (snd entry)) kb \<noteq> []
      \<and> 0.65 \<le> best_strong cosine_similarity qe kb)"
proof (cases "filter (\<lambda>entry. is_strong cosine_similarity qe (snd entry)) kb")
  case Nil
  then show ?thesis by (simp add: best_strong_def)
next
  case (Cons e es)
  then have "e \<in> set (filter (\<lambda>entry. is_strong cosine_similarity qe (snd entry)) kb)" by simp
  then have s: "is_strong cosine_similarity qe (snd e)" by simp
  have "max_score cosine_similarity qe (snd e) \<le> best_strong cosine_similarity qe kb"
    unfolding best_strong_def Cons
    by (rule fold_max_ge_elem) simp
  with strong_max_ge [OF s] Cons show ?thesis by simp
qed

lemma find_append:
  "List.find P (xs @ ys) = (case List.find P xs of None \<Rightarrow> List.find P ys | Some x \<Rightarrow> Some x)"
  by (induction xs) simp_all

lemma scan_snoc:
  "scan cosine_similarity qe (kb @ [e]) = scan_item cosine_similarity qe (scan cosine_similarity qe kb) e"
  by (simp add: scan_def)

lemma df_scan_snoc:
  "df_scan cosine_similarity qe (kb @ [e])
     = df_scan_item cosine_similarity qe (df_scan cosine_similarity qe kb) e"
  by (simp add: df_scan_def)

lemma strong_rows_snoc:
  "strong_rows cosine_similarity qe (kb @ [e]) =
     strong_rows cosine_similarity qe kb @ (if is_strong cosine_similarity qe (snd e) then [fst e] else [])"
  by (simp add: strong_rows_def)

lemma weak_rows_snoc:
  "weak_rows cosine_similarity qe (kb @ [e]) =
     weak_rows cosine_similarity qe kb @ (if is_weak cosine_similarity qe (snd e) then [fst e] else [])"
  by (simp add: weak_rows_def)

text \<open>The first row attaining the best average, after one more row.\<close>

lemma first_best_avg_row_keep:
  assumes "best_avg cosine_similarity qe (kb @ [e]) = best_avg cosine_similarity qe kb"
    and "first_best_avg_row cosine_similarity qe kb = Some r"
  shows "first_best_avg_row cosine_similarity qe (kb @ [e]) = Some r"
  using assms by (auto simp: first_best_avg_row_def find_append split: option.splits)

lemma first_best_avg_row_new:
  assumes w: "is_weak cosine_similarity qe (snd e)"
    and gt: "best_avg cosine_similarity qe kb < avg_score cosine_similarity qe (snd e)"
  shows "first_best_avg_row cosine_similarity qe (kb @ [e]) = Some (fst e)"
proof -
  have b: "best_avg cosine_similarity qe (kb @ [e]) = avg_score cosine_similarity qe (snd e)"
    using w gt by (simp add: best_avg_snoc)
  have "List.find (\<lambda>entry. is_weak cosine_similarity qe (snd entry)
            \<and> avg_score cosine_similarity qe (snd entry) = avg_score cosine_similarity qe (snd e)) kb = None"
  proof -
    have "\<not> (is_weak cosine_similarity qe (snd x)
            \<and> avg_score cosine_similarity qe (snd x) = avg_score cosine_similarity qe (snd e))"
      if "x \<in> set kb" for x
      using weak_avg_le_best [OF that, of cosine_similarity qe] gt by auto
    then show ?thesis unfolding find_None_iff by blast
  qed
  then show ?thesis
    using w by (simp add: first_best_avg_row_def b find_append)
qed

text \<open>What the scan of chatbot/response\_generation.py holds after the loop.\<close>

lemma scan_invariant:
  "best_max_match_response (scan cosine_similarity qe kb) = strong_rows cosine_similarity qe kb
   \<and> (strong_rows cosine_similarity qe kb = [] \<longrightarrow> best_max_match_score (scan cosine_similarity qe kb) = 0)
   \<and> (strong_rows cosine_similarity qe kb \<noteq> [] \<longrightarrow> 0.65 \<le> best_max_match_score (scan cosine_similarity qe kb))
   \<and> best_match_score (scan cosine_similarity qe kb) = best_avg cosine_similarity qe kb
   \<and> set (best_match_response (scan cosine_similarity qe kb)) \<subseteq> set (weak_rows cosine_similarity qe kb)
   \<and> (0 < best_avg cosine_similarity qe kb \<longrightarrow>
        best_match_response (scan cosine_similarity qe kb) \<noteq> []
        \<and> first_best_avg_row cosine_similarity qe kb
            = Some (last (best_match_response (scan cosine_similarity qe kb))))"
proof (induction kb rule: rev_induct)
  case Nil
  show ?case
    by (simp add: scan_def init_state_def strong_rows_def weak_rows_def best_avg_def)
next
  case (snoc e kb)
  let ?st = "scan cosine_similarity qe kb"
  show ?case
  proof (cases "is_strong cosine_similarity qe (snd e)")
    case True
    then have nw: "\<not> is_weak cosine_similarity qe (snd e)"
      by (simp add: weak_iff_not_strong)
    have st: "scan cosine_similarity qe (kb @ [e]) =
        ?st\<lparr>best_max_match_score := max_score cosine_similarity qe (snd e),
             best_max_match_response := best_max_match_response ?st @ [fst e]\<rparr>"
      using True nw by (simp add: scan_snoc scan_item_def Let_def)
    have b: "best_avg cosine_similarity qe (kb @ [e]) = best_avg cosine_similarity qe kb"
      using nw by (simp add: best_avg_snoc)
    have f: "first_best_avg_row cosine_similarity qe kb = Some r
             \<Longrightarrow> first_best_avg_row cosine_similarity qe (kb @ [e]) = Some r" for r
      using first_best_avg_row_keep [OF b] .
    from snoc.IH True nw strong_max_ge [OF True] show ?thesis
      unfolding st b by (auto simp: strong_rows_snoc weak_rows_snoc f)
  next
    case False
    then have w: "is_weak cosine_similarity qe (snd e)"
      by (simp add: weak_iff_not_strong)
    show ?thesis
    proof (cases "best_avg cosine_similarity qe kb < avg_score cosine_similarity qe (snd e)")
      case True
      have st: "scan cosine_similarity qe (kb @ [e]) =
          ?st\<lparr>best_match_score := avg_score cosine_similarity qe (snd e),
               best_match_response := best_match_response ?st @ [fst e]\<rparr>"
        using False w True snoc.IH by (simp add: scan_snoc scan_item_def Let_def)
      have b: "best_avg cosine_similarity qe (kb @ [e]) = avg_score cosine_similarity qe (snd e)"
        using w True by (simp add: best_avg_snoc)
      from snoc.IH False w first_best_avg_row_new [OF w True] show ?thesis
        unfolding st b by (auto simp: strong_rows_snoc weak_rows_snoc)
    next
      case le: False
      have st: "scan cosine_similarity qe (kb @ [e]) = ?st"
        using False w le snoc.IH by (simp add: scan_snoc scan_item_def Let_def)
      have b: "best_avg cosine_similarity qe (kb @ [e]) = best_avg cosine_similarity qe kb"
        using w le by (simp add: best_avg_snoc)
      have f: "first_best_avg_row cosine_similarity qe kb = Some r
               \<Longrightarrow> first_best_avg_row cosine_similarity qe (kb @ [e]) = Some r" for r
        using first_best_avg_row_keep [OF b] .
      from snoc.IH False w show ?thesis
        unfolding st b by (auto simp: strong_rows_snoc weak_rows_snoc f)
    qed
  qed
qed

text \<open>What the scan of utils/analyse\_dataframe.py holds after the loop.\<close>

lemma df_scan_invariant:
  "(strong_rows cosine_similarity qe kb = [] \<longrightarrow>
       df_best_max_match_response (df_scan cosine_similarity qe kb) = None
       \<and> df_best_max_match_score (df_scan cosine_similarity qe kb) = 0)
   \<and> (strong_rows cosine_similarity qe kb \<noteq> [] \<longrightarrow>
       df_best_max_match_response (df_scan cosine_similarity qe kb)
         = Some (last (strong_rows cosine_similarity qe kb))
       \<and> 0.65 \<le> df_best_max_match_score (df_scan cosine_similarity qe kb))
   \<and> df_best_match_score (df_scan cosine_similarity qe kb) = best_avg cosine_similarity qe kb
   \<and> (0 < best_avg cosine_similarity qe kb \<longrightarrow>
        df_best_match_response (df_scan cosine_similarity qe kb)
          = first_best_avg_row cosine_similarity qe kb
        \<and> first_best_avg_row cosine_similarity qe kb \<noteq> None)"
proof (induction kb rule: rev_induct)
  case Nil
  show ?case
    by (simp add: df_scan_def df_init_state_def strong_rows_def best_avg_def)
next
  case (snoc e kb)
  let ?st = "df_scan cosine_similarity qe kb"
  show ?case
  proof (cases "is_strong cosine_similarity qe (snd e)")
    case True
    then have nw: "\<not> is_weak cosine_similarity qe (snd e)"
      by (simp add: weak_iff_not_strong)
    have st: "df_scan cosine_similarity qe (kb @ [e]) =
        ?st\<lparr>df_best_max_match_score := max_score cosine_similarity qe (snd e),
             df_best_max_match_response := Some (fst e)\<rparr>"
      using True nw by (simp add: df_scan_snoc df_scan_item_def Let_def)
    have b: "best_avg cosine_similarity qe (kb @ [e]) = best_avg cosine_similarity qe kb"
      using nw by (simp add: best_avg_snoc)
    have f: "first_best_avg_row cosine_similarity qe kb = Some r
             \<Longrightarrow> first_best_avg_row cosine_similarity qe (kb @ [e]) = Some r" for r
      using first_best_avg_row_keep [OF b] .
    from snoc.IH True nw strong_max_ge [OF True] show ?thesis
      unfolding st b by (auto simp: strong_rows_snoc f)
  next
    case False
    then have w: "is_weak cosine_similarity qe (snd e)"
      by (simp add: weak_iff_not_strong)
    show ?thesis
    proof (cases "best_avg cosine_similarity qe kb < avg_score cosine_similarity qe (snd e)")
      case True
      have st: "df_scan cosine_similarity qe (kb @ [e]) =
          ?st\<lparr>df_best_match_score := avg_score cosine_similarity qe (snd e),
               df_best_match_response := Some (fst e)\<rparr>"
        using False w True snoc.IH by (simp add: df_scan_snoc df_scan_item_def Let_def)
      have b: "best_avg cosine_similarity qe (kb @ [e]) = avg_score cosine_similarity qe (snd e)"
        using w True by (simp add: best_avg_snoc)
      from snoc.IH False w first_best_avg_row_new [OF w True] show ?thesis
        unfolding st b by (auto simp: strong_rows_snoc)
    next
      case le: False
      have st: "df_scan cosine_similarity qe (kb @ [e]) = ?st"
        using False w le snoc.IH by (simp add: df_scan_snoc df_scan_item_def Let_def)
      have b: "best_avg cosine_similarity qe (kb @ [e]) = best_avg cosine_similarity qe kb"
        using w le by (simp add: best_avg_snoc)
      have f: "first_best_avg_row cosine_similarity qe kb = Some r
               \<Longrightarrow> first_best_avg_row cosine_similarity qe (kb @ [e]) = Some r" for r
        using first_best_avg_row_keep [OF b] .
      from snoc.IH False w show ?thesis
        unfolding st b by (auto simp: strong_rows_snoc f)
    qed
  qed
qed

lemma strong_rows_empty_iff:
  "strong_rows cosine_similarity qe kb = []
     \<longleftrightarrow> filter (\<lambda>entry. is_strong cosine_similarity qe (snd entry)) kb = []"
  by (simp add: strong_rows_def)

text \<open>
  The comparisons of the decision rule come out the same for the score the code keeps
  (that of the last strong row) and for the highest score among the strong rows: both
  are 0 when no row is strong and at least 0.65, above every average, otherwise.
\<close>

lemma tracked_score_decides_alike:
  assumes "strong_rows cosine_similarity qe kb = [] \<longrightarrow> tracked = 0"
    and "strong_rows cosine_similarity qe kb \<noteq> [] \<longrightarrow> 0.65 \<le> tracked"
  shows "(tracked < best_avg cosine_similarity qe kb)
           = (best_strong cosine_similarity qe kb < best_avg cosine_similarity qe kb)
         \<and> (best_avg cosine_similarity qe kb < tracked)
           = (best_avg cosine_similarity qe kb < best_strong cosine_similarity qe kb)"
  using assms best_strong_cases [of cosine_similarity qe kb] best_avg_less [of cosine_similarity qe kb]
  unfolding strong_rows_empty_iff by auto

text \<open>
  Claim C2, amended. For a query with an empty Pass-1 result, let \<open>best_strong\<close> be the
  highest of the three component scores among the rows with some component at least
  0.65 and \<open>best_avg\<close> the highest average among the other rows, both starting from 0.
  If \<open>best_avg\<close> reaches the threshold and \<open>best_strong\<close> is below it, the matcher of
  chatbot/response\_generation.py returns a non-empty list of rows without a strong
  component that ends with the first row attaining \<open>best_avg\<close>, and the matcher of
  utils/analyse\_dataframe.py returns that row. Otherwise, if \<open>best_strong\<close> is above
  \<open>best_avg\<close>, the former returns all the strong rows in index order and the latter one
  of them. Otherwise both return none.
\<close>

theorem pass2_decision_rule:
  assumes "match_generator kb (query_words query) = []"
  shows
    "(best_avg cosine_similarity (enc (lower query)) kb \<ge> threshold
        \<and> best_strong cosine_similarity (enc (lower query)) kb
            < best_avg cosine_similarity (enc (lower query)) kb
      \<longrightarrow> (\<exists>rows. find_best_context enc cosine_similarity kb query threshold = Some rows
              \<and> rows \<noteq> []
              \<and> set rows \<subseteq> set (weak_rows cosine_similarity (enc (lower query)) kb)
              \<and> first_best_avg_row cosine_similarity (enc (lower query)) kb = Some (last rows))
          \<and> df_find_best_context enc cosine_similarity kb query threshold
              = first_best_avg_row cosine_similarity (enc (lower query)) kb
          \<and> first_best_avg_row cosine_similarity (enc (lower query)) kb \<noteq> None)
     \<and> (\<not> (best_avg cosine_similarity (enc (lower query)) kb \<ge> threshold
            \<and> best_strong cosine_similarity (enc (lower query)) kb
                < best_avg cosine_similarity (enc (lower query)) kb)
         \<and> best_strong cosine_similarity (enc (lower query)) kb
             > best_avg cosine_similarity (enc (lower query)) kb
      \<longrightarrow> find_best_context enc cosine_similarity kb query threshold
            = Some (strong_rows cosine_similarity (enc (lower query)) kb)
          \<and> strong_rows cosine_similarity (enc (lower query)) kb \<noteq> []
          \<and> (\<exists>row\<in>set (strong_rows cosine_similarity (enc (lower query)) kb).
                df_find_best_context enc cosine_similarity kb query threshold = Some row))
     \<and> (\<not> (best_avg cosine_similarity (enc (lower query)) kb \<ge> threshold
            \<and> best_strong cosine_similarity (enc (lower query)) kb
                < best_avg cosine_similarity (enc (lower query)) kb)
         \<and> \<not> best_strong cosine_similarity (enc (lower query)) kb
               > best_avg cosine_similarity (enc (lower query)) kb
      \<longrightarrow> find_best_context enc cosine_similarity kb query threshold = None
          \<and> df_find_best_context enc cosine_similarity kb query threshold = None)"
proof -
  let ?qe = "enc (lower query)"
  let ?st = "scan cosine_similarity ?qe kb"
  let ?df = "df_scan cosine_similarity ?qe kb"
  let ?ba = "best_avg cosine_similarity ?qe kb"
  let ?bs = "best_strong cosine_similarity ?qe kb"
  note inv = scan_invariant [of cosine_similarity ?qe kb]
  note dinv = df_scan_invariant [of cosine_similarity ?qe kb]
  have cmp: "(best_max_match_score ?st < ?ba) = (?bs < ?ba) \<and> (?ba < best_max_match_score ?st) = (?ba < ?bs)"
    using tracked_score_decides_alike [of cosine_similarity ?qe kb "best_max_match_score ?st"] inv
    by blast
  have dcmp: "(df_best_max_match_score ?df < ?ba) = (?bs < ?ba)
              \<and> (?ba < df_best_max_match_score ?df) = (?ba < ?bs)"
    using tracked_score_decides_alike [of cosine_similarity ?qe kb "df_best_max_match_score ?df"] dinv
    by blast
  have fbc: "find_best_context enc cosine_similarity kb query threshold =
      (if threshold \<le> ?ba \<and> ?bs < ?ba then Some (best_match_response ?st)
       else if ?ba < ?bs then Some (strong_rows cosine_similarity ?qe kb) else None)"
    using assms inv cmp by (simp add: find_best_context_def Let_def)
  have dfbc: "df_find_best_context enc cosine_similarity kb query threshold =
      (if threshold \<le> ?ba \<and> ?bs < ?ba then df_best_match_response ?df
       else if ?ba < ?bs then df_best_max_match_response ?df else None)"
    using dinv dcmp by (simp add: df_find_best_context_def Let_def)
  have pos: "?bs < ?ba \<Longrightarrow> 0 < ?ba"
    using best_strong_cases [of cosine_similarity ?qe kb] by auto
  have strong: "?ba < ?bs \<Longrightarrow> strong_rows cosine_similarity ?qe kb \<noteq> []"
    using best_strong_cases [of cosine_similarity ?qe kb] best_avg_nonneg [of cosine_similarity ?qe kb]
    unfolding strong_rows_empty_iff by auto
  show ?thesis
  proof (intro conjI impI)
    assume a: "threshold \<le> ?ba \<and> ?bs < ?ba"
    with pos have p: "0 < ?ba" by blast
    from a p inv show "\<exists>rows. find_best_context enc cosine_similarity kb query threshold = Some rows
              \<and> rows \<noteq> []
              \<and> set rows \<subseteq> set (weak_rows cosine_similarity ?qe kb)
              \<and> first_best_avg_row cosine_similarity ?qe kb = Some (last rows)"
      unfolding fbc by simp
    from a p dinv show "df_find_best_context enc cosine_similarity kb query threshold
              = first_best_avg_row cosine_similarity ?qe kb"
      unfolding dfbc by simp
    from p dinv show "first_best_avg_row cosine_similarity ?qe kb \<noteq> None"
      by blast
  next
    assume a: "\<not> (threshold \<le> ?ba \<and> ?bs < ?ba) \<and> ?ba < ?bs"
    then show "find_best_context enc cosine_similarity kb query threshold
            = Some (strong_rows cosine_similarity ?qe kb)"
      unfolding fbc by simp
    from a strong show ne: "strong_rows cosine_similarity ?qe kb \<noteq> []"
      by blast
    from a ne dinv show "\<exists>row\<in>set (strong_rows cosine_similarity ?qe kb).
                df_find_best_context enc cosine_similarity kb query threshold = Some row"
      unfolding dfbc by simp
  next
    assume a: "\<not> (threshold \<le> ?ba \<and> ?bs < ?ba) \<and> \<not> ?ba < ?bs"
    then show "find_best_context enc cosine_similarity kb query threshold = None"
      unfolding fbc by simp
    from a show "df_find_best_context enc cosine_similarity kb query threshold = None"
      unfolding dfbc by auto
  qed
qed

theorem pass2_decision_rule_witness:
  "df_find_best_context example_enc fatty_cos example_kb ''Fatty blood'' 0.3 = Some angina_item
   \<and> (\<exists>rows. find_best_context example_enc fatty_cos example_kb ''Fatty blood'' 0.3 = Some rows
          \<and> last rows = angina_item)"
proof -
  have h: "match_generator example_kb (query_words ''Fatty blood'') = []"
    by code_simp
  have v: "best_avg fatty_cos (example_enc (lower ''Fatty blood'')) example_kb = 0.5
           \<and> best_strong fatty_cos (example_enc (lower ''Fatty blood'')) example_kb = 0
           \<and> first_best_avg_row fatty_cos (example_enc (lower ''Fatty blood'')) example_kb
               = Some angina_item"
    by code_simp
  from pass2_decision_rule [OF h, of "0.3" fatty_cos example_enc] v
  show ?thesis by auto
qed

text \<open>
  Claim C2 as stated fails: the score the code keeps for the strong rows is that of the
  last strong row (0.7 here), not the highest one (0.9); the older matcher returns that
  last row and the newer one all the strong rows; and the list returned for the averages
  holds every row that raised the running best, here also a row with average 0.4 below
  the best average 0.5.
\<close>

theorem pass2_tracked_best_counterexample:
  "best_strong races_cos (example_enc (lower ''My heart races'')) example_kb = 0.9
   \<and> best_max_match_score (scan races_cos (example_enc (lower ''My heart races'')) example_kb) = 0.7
   \<and> find_best_context example_enc races_cos example_kb ''My heart races'' 0.3
       = Some [angina_item, tachycardia_item]
   \<and> df_find_best_context example_enc races_cos example_kb ''My heart races'' 0.3
       = Some tachycardia_item
   \<and> max_score races_cos (example_enc (lower ''My heart races'')) (embed tachycardia_item) = 0.7
   \<and> find_best_context example_enc fatty_cos example_kb ''Fatty blood'' 0.3
       = Some [cholesterol_item, angina_item]
   \<and> avg_score fatty_cos (example_enc (lower ''Fatty blood'')) (embed cholesterol_item) = 0.4
   \<and> best_avg fatty_cos (example_enc (lower ''Fatty blood'')) example_kb = 0.5"
  by code_simp


lemma csv_trigger_is_synonym:
  "csv_max_trigger_score cosine_similarity query_embedding emb
     = max_synonym_score cosine_similarity query_embedding emb"
  by (simp add: csv_max_trigger_score_def max_synonym_score_def max_or_0_def Let_def)

text \<open>
  Claim C9 on the code of Logic1\_OnlyCSV.py: the score it calls the trigger score is
  the maximum over the synonym embeddings, whatever the trigger embedding is. Here the
  query is close to the trigger word only (0.9): the variant scores 0.1 and finds no
  match at threshold 0.7, where the sibling variant that reads the trigger embedding
  returns the row's response.
\<close>

theorem csv_trigger_score_reads_synonyms:
  "csv_max_trigger_score cosine_similarity query_embedding emb
     = max_synonym_score cosine_similarity query_embedding emb
   \<and> trigger_score trigger_only_cos (example_enc (lower ''angina'')) (embed_csv angina_csv) = 0.9
   \<and> csv_max_trigger_score trigger_only_cos (example_enc (lower ''angina'')) (embed_csv angina_csv) = 0.1
   \<and> csv_find_best_context example_enc trigger_only_cos example_csv_base ''angina'' 0.7 = None
   \<and> jp_find_best_context example_enc trigger_only_cos example_csv_base ''angina'' 0.7
       = Some (response angina_csv)"
proof -
  have "trigger_score trigger_only_cos (example_enc (lower ''angina'')) (embed_csv angina_csv) = 0.9
   \<and> csv_max_trigger_score trigger_only_cos (example_enc (lower ''angina'')) (embed_csv angina_csv) = 0.1
   \<and> csv_find_best_context example_enc trigger_only_cos example_csv_base ''angina'' 0.7 = None
   \<and> jp_find_best_context example_enc trigger_only_cos example_csv_base ''angina'' 0.7
       = Some (response angina_csv)"
    by code_simp
  then show ?thesis
    by (simp add: csv_trigger_is_synonym)
qed


subsection \<open>History of the conversational variant\<close>

lemma jp_fallback_appends:
  assumes "\<not> list_ex (\<lambda>greeting. lower user_input = greeting) greetings"
    and "\<not> truthy (jp_find_best_context enc cosine_similarity kb (lower user_input) threshold)"
  shows "history (snd (jp_get_response gemini enc cosine_similarity kb user_input ch threshold))
           = history ch @ [\<lparr>turn_user_input = lower user_input,
                            turn_bot_response = jp_fallback_response\<rparr>]"
  using assms by (simp add: jp_get_response_def Let_def)

lemma jp_match_truncates:
  assumes "\<not> list_ex (\<lambda>greeting. lower user_input = greeting) greetings"
    and "truthy (jp_find_best_context enc cosine_similarity kb (lower user_input) threshold)"
  shows "length (history (snd (jp_get_response gemini enc cosine_similarity kb user_input ch threshold)))
           \<le> 10"
  using assms by (simp add: jp_get_response_def Let_def last_n_def)

text \<open>
  Claim C6 on the code of app3Japanese.py: the history is cut to its last ten turns on
  the path of a matched question only. After eleven unmatched questions it holds eleven
  turns; after eleven matched ones it holds turns 2 to 11.
\<close>

theorem history_grows_on_fallback:
  "length (history (run_turns example_gemini example_enc zero_cos example_csv_base 0.4
             empty_history football_inputs)) = 11
   \<and> map turn_user_input (history (run_turns example_gemini example_enc high_cos example_csv_base 0.4
             empty_history angina_inputs))
       = [''angina 2'', ''angina 3'', ''angina 4'', ''angina 5'', ''angina 6'',
          ''angina 7'', ''angina 8'', ''angina 9'', ''angina 10'', ''angina 11'']"
  by code_simp

end
